theory Spec2Isabelle
  imports Complex_Main "HOL-Library.Word"
begin

section \<open>PCM encoder: \<open>createBlob\<close>\<close>

text \<open>
  A \<open>Float32Array\<close> element read in JavaScript is a Number: a finite value, an
  infinity or NaN. Every finite float32 is a dyadic rational, and its product with
  \<open>32768 = 2^15\<close> is representable as a double, so \<open>data[i] * 32768\<close> is computed
  without rounding; the finite case is therefore modelled over \<open>real\<close>.
\<close>

datatype js_number = Num real | PosInf | NegInf | NaN

text \<open>\<open>data[i] * 32768\<close>\<close>

fun scale :: "js_number \<Rightarrow> js_number" where
  "scale (Num r) = Num (r * 32768)"
| "scale PosInf = PosInf"
| "scale NegInf = NegInf"
| "scale NaN = NaN"

text \<open>\<open>Math.min\<close> and \<open>Math.max\<close> of two Numbers: NaN is contagious.\<close>

fun Math_min :: "js_number \<Rightarrow> js_number \<Rightarrow> js_number" where
  "Math_min NaN y = NaN"
| "Math_min x NaN = NaN"
| "Math_min NegInf y = NegInf"
| "Math_min x NegInf = NegInf"
| "Math_min PosInf y = y"
| "Math_min x PosInf = x"
| "Math_min (Num a) (Num b) = Num (min a b)"

fun Math_max :: "js_number \<Rightarrow> js_number \<Rightarrow> js_number" where
  "Math_max NaN y = NaN"
| "Math_max x NaN = NaN"
| "Math_max PosInf y = PosInf"
| "Math_max x PosInf = PosInf"
| "Math_max NegInf y = y"
| "Math_max x NegInf = x"
| "Math_max (Num a) (Num b) = Num (max a b)"

text \<open>
  Storing a Number into an \<open>Int16Array\<close> applies ECMAScript's \<open>ToInt16\<close>: NaN and
  the infinities become 0, a finite value is truncated towards zero and reduced
  modulo \<open>2^16\<close> into the signed range. \<open>word_of_int\<close> is that reduction; \<open>sint\<close>
  reads the stored element back.
\<close>

definition js_truncate :: "real \<Rightarrow> int" where
  "js_truncate r = (if r < 0 then \<lceil>r\<rceil> else \<lfloor>r\<rfloor>)"

fun ToInt16 :: "js_number \<Rightarrow> 16 word" where
  "ToInt16 (Num r) = word_of_int (js_truncate r)"
| "ToInt16 PosInf = 0"
| "ToInt16 NegInf = 0"
| "ToInt16 NaN = 0"

text \<open>The loop body of the earlier revision: \<open>int16[i] = data[i] * 32768\<close>.\<close>

definition sample_v1 :: "js_number \<Rightarrow> 16 word" where
  "sample_v1 x = ToInt16 (scale x)"

text \<open>
  The loop body of the later revision:
  \<open>int16[i] = Math.max(-32768, Math.min(32767, data[i] * 32768))\<close>.
\<close>

definition sample_v2 :: "js_number \<Rightarrow> 16 word" where
  "sample_v2 x = ToInt16 (Math_max (Num (- 32768)) (Math_min (Num 32767) (scale x)))"

text \<open>The \<open>for\<close> loop fills \<open>int16[0..l-1]\<close> element by element.\<close>

primrec int16_v1 :: "js_number list \<Rightarrow> 16 word list" where
  "int16_v1 [] = []"
| "int16_v1 (x # xs) = sample_v1 x # int16_v1 xs"

primrec int16_v2 :: "js_number list \<Rightarrow> 16 word list" where
  "int16_v2 [] = []"
| "int16_v2 (x # xs) = sample_v2 x # int16_v2 xs"

text \<open>
  \<open>new Uint8Array(int16.buffer)\<close>: the bytes of the array in platform order,
  little-endian on every platform the application runs on.
\<close>

primrec buffer_bytes :: "16 word list \<Rightarrow> 8 word list" where
  "buffer_bytes [] = []"
| "buffer_bytes (w # ws) = ucast w # ucast (drop_bit 8 w) # buffer_bytes ws"

record blob =
  blob_data :: string
  mimeType :: string

text \<open>
  \<open>encode\<close> (base64, from \<open>./utils/audio\<close>) is not among the sources; it is a
  parameter of both revisions.
\<close>

definition createBlob_v1 :: "(8 word list \<Rightarrow> string) \<Rightarrow> js_number list \<Rightarrow> blob" where
  "createBlob_v1 encode dat =
     \<lparr>blob_data = encode (buffer_bytes (int16_v1 dat)), mimeType = ''audio/pcm;rate=16000''\<rparr>"

definition createBlob_v2 :: "(8 word list \<Rightarrow> string) \<Rightarrow> js_number list \<Rightarrow> blob" where
  "createBlob_v2 encode dat =
     \<lparr>blob_data = encode (buffer_bytes (int16_v2 dat)), mimeType = ''audio/pcm;rate=16000''\<rparr>"

text \<open>The input range on which the two revisions are compared.\<close>

fun in_range :: "js_number \<Rightarrow> bool" where
  "in_range (Num r) = (- 1 \<le> r \<and> r \<le> 32767 / 32768)"
| "in_range PosInf = False"
| "in_range NegInf = False"
| "in_range NaN = False"

section \<open>Application state\<close>

text \<open>
  The component's \<open>useState\<close> cells and \<open>useRef\<close> cells are the fields of one
  record that every handler takes and returns. A handler that does not await runs
  to completion. Teardown, the start of a session, the text prompt and the
  condensing of the history are \<open>async\<close> functions that other handlers can
  overtake while they wait: each comes as the part that runs up to an \<open>await\<close>
  and the parts that run when the awaited promise has settled. What a handler
  does to the world outside the component (the remote session, the microphone,
  the audio contexts, the playback nodes) is appended to \<open>effects\<close>, in program
  order.

  A Message carries its role, text and optional image; its timestamp and random
  id come from \<open>Date\<close> and \<open>Math.random\<close> and are left out. The input-level meter
  and the scroll and search cells of the user interface are left out as well.
\<close>

datatype MayaMode = LIVE | DEEP_THOUGHT | SEARCH | IMAGE

datatype model_id = MODELS_LIVE | MODELS_THINKING | MODELS_SEARCH | MODELS_IMAGE

datatype role = User | Maya

record message =
  msg_role :: role
  msg_text :: string
  imageUrl :: "string option"

text \<open>
  An audio context: \<open>ctx_state\<close> is what its \<open>state\<close> attribute reads, and
  \<open>close_called\<close> tells that \<open>close\<close> has been called on it. The attribute is
  taken to turn to \<open>closed\<close> in the task that resolves the promise of \<open>close\<close>,
  where the steps of the Web Audio API for \<open>close\<close> set it; between the call and
  that task the context still reads as it did.
\<close>

datatype ctx_state = Suspended | Running | Closed

record audio_ctx =
  ctx_id :: nat
  sampleRate :: nat
  ctx_state :: ctx_state
  close_called :: bool

record media_stream =
  tracks :: "nat list"

record session =
  session_id :: nat
  close_throws :: bool

record buffer_source =
  start_at :: real
  duration :: real
  started :: bool

datatype error = InvalidStateError | CloseError | NotAllowedError | ConnectError | TypeError

datatype effect =
    SessionClose nat
  | TrackStop nat
  | CtxClose nat
  | CtxResume nat
  | CtxCreate nat nat
  | GetUserMedia "nat list"
  | Connect nat
  | SourceStart real real
  | SourceStop real real
  | SendRealtimeInput nat blob
  | GenerateContent model_id string
  | Alert string
  | ConsoleWarn

record app =
  messages :: "message list"
  localStorage :: "message list option"
  mode :: MayaMode
  isActive :: bool
  isThinking :: bool
  isMayaSpeaking :: bool
  inputAudioCtxRef :: "audio_ctx option"
  outputAudioCtxRef :: "audio_ctx option"
  sourcesRef :: "buffer_source list"
  nextStartTimeRef :: real
  sessionRef :: "session option"
  streamRef :: "media_stream option"
  currentInputTranscription :: string
  currentOutputTranscription :: string
  effects :: "effect list"

definition emit :: "effect list \<Rightarrow> app \<Rightarrow> app" where
  "emit es st = st\<lparr>effects := effects st @ es\<rparr>"

text \<open>
  The state of a freshly mounted component with nothing stored. The earlier
  revision never writes to the store; in the later revision the effect that
  follows the first render has written the empty list.
\<close>

definition initial_app :: app where
  "initial_app =
     \<lparr>messages = [], localStorage = None, mode = LIVE, isActive = False,
      isThinking = False, isMayaSpeaking = False, inputAudioCtxRef = None,
      outputAudioCtxRef = None, sourcesRef = [], nextStartTimeRef = 0,
      sessionRef = None, streamRef = None, currentInputTranscription = [],
      currentOutputTranscription = [], effects = []\<rparr>"

definition initial_app_v2 :: app where
  "initial_app_v2 = initial_app\<lparr>localStorage := Some []\<rparr>"

section \<open>Messages: \<open>addMessage\<close>\<close>

definition addMessage_v1 :: "role \<Rightarrow> string \<Rightarrow> app \<Rightarrow> app" where
  "addMessage_v1 r t st =
     st\<lparr>messages := messages st @ [\<lparr>msg_role = r, msg_text = t, imageUrl = None\<rparr>]\<rparr>"

text \<open>
  \<open>Array.prototype.slice(start)\<close> with one argument: a negative \<open>start\<close> counts
  from the end and is cut off at 0, a positive one is cut off at the length.
\<close>

definition js_slice :: "int \<Rightarrow> 'a list \<Rightarrow> 'a list" where
  "js_slice start xs =
     (let len = int (length xs);
          k = (if start < 0 then max (len + start) 0 else min start len)
      in drop (nat k) xs)"

text \<open>
  In the later revision every change of \<open>messages\<close> runs the effect that writes
  the list to \<open>localStorage\<close> under \<open>maya_neural_link\<close>.
\<close>

definition setMessages_v2 :: "(message list \<Rightarrow> message list) \<Rightarrow> app \<Rightarrow> app" where
  "setMessages_v2 f st =
     (let ms = f (messages st) in st\<lparr>messages := ms, localStorage := Some ms\<rparr>)"

definition addMessage_v2 :: "role \<Rightarrow> string \<Rightarrow> string option \<Rightarrow> app \<Rightarrow> app" where
  "addMessage_v2 r t img st =
     setMessages_v2
       (\<lambda>prev. js_slice (- 50) (prev @ [\<lparr>msg_role = r, msg_text = t, imageUrl = img\<rparr>])) st"

text \<open>A run of \<open>addMessage\<close> calls, one per element, oldest first.\<close>

primrec addMessages_v2 :: "message list \<Rightarrow> app \<Rightarrow> app" where
  "addMessages_v2 [] st = st"
| "addMessages_v2 (m # ms) st =
     addMessages_v2 ms (addMessage_v2 (msg_role m) (msg_text m) (imageUrl m) st)"

section \<open>Teardown: \<open>stopSession\<close>\<close>

text \<open>
  The operations of the browser and of the client library that can throw or
  reject. \<open>AudioContext.close\<close> rejects with \<open>InvalidStateError\<close> on a context
  that is closed or on which \<open>close\<close> has been called before;
  \<open>AudioScheduledSourceNode.stop\<close> throws it on a node that was never started;
  whether a session's \<open>close\<close> throws is a property of the handle.
\<close>

definition session_close :: "session \<Rightarrow> error + effect" where
  "session_close s =
     (if close_throws s then Inl CloseError else Inr (SessionClose (session_id s)))"

definition ctx_close :: "audio_ctx \<Rightarrow> error + effect" where
  "ctx_close c =
     (if close_called c \<or> ctx_state c = Closed then Inl InvalidStateError
      else Inr (CtxClose (ctx_id c)))"

definition source_stop :: "buffer_source \<Rightarrow> error + effect" where
  "source_stop s =
     (if started s then Inr (SourceStop (start_at s) (duration s))
      else Inl InvalidStateError)"

text \<open>\<open>sourcesRef.current.forEach(s => { try { s.stop(); } catch (e) {} })\<close>\<close>

primrec stop_sources :: "buffer_source list \<Rightarrow> effect list" where
  "stop_sources [] = []"
| "stop_sources (s # ss) =
     (case source_stop s of Inl e \<Rightarrow> [] | Inr ef \<Rightarrow> [ef]) @ stop_sources ss"

text \<open>
  Earlier revision, lines 57 to 65: the reference is cleared first, a throwing
  \<open>close\<close> is caught and logged.
\<close>

definition close_session_v1 :: "app \<Rightarrow> app" where
  "close_session_v1 st =
     (case sessionRef st of
        None \<Rightarrow> st
      | Some s \<Rightarrow>
          emit (case session_close s of
                  Inl e \<Rightarrow> [SessionClose (session_id s), ConsoleWarn]
                | Inr ef \<Rightarrow> [ef])
            (st\<lparr>sessionRef := None\<rparr>))"

text \<open>
  Later revision, lines 548 to 551: \<open>close\<close> is awaited inside \<open>try\<close> with an
  empty \<open>catch\<close>, then the reference is cleared. \<open>close_session_v2\<close> is the call
  and the clearing together, as they follow each other when nothing else runs
  during the \<open>await\<close>.
\<close>

definition close_session_v2 :: "app \<Rightarrow> app" where
  "close_session_v2 st =
     (case sessionRef st of
        None \<Rightarrow> st
      | Some s \<Rightarrow>
          (emit (case session_close s of
                   Inl e \<Rightarrow> [SessionClose (session_id s)]
                 | Inr ef \<Rightarrow> [ef]) st)\<lparr>sessionRef := None\<rparr>)"

definition stop_stream :: "app \<Rightarrow> app" where
  "stop_stream st =
     (case streamRef st of
        None \<Rightarrow> st
      | Some stream \<Rightarrow> (emit (map TrackStop (tracks stream)) st)\<lparr>streamRef := None\<rparr>)"

text \<open>
  Earlier revision: \<open>ctx.close().catch(...)\<close> behind the \<open>state !== 'closed'\<close>
  test; a rejection is handled by the \<open>catch\<close> callback.
\<close>

definition close_ctx_v1 :: "audio_ctx option \<Rightarrow> effect list" where
  "close_ctx_v1 r =
     (case r of
        None \<Rightarrow> []
      | Some c \<Rightarrow>
          if ctx_state c \<noteq> Closed
          then (case ctx_close c of Inl e \<Rightarrow> [] | Inr ef \<Rightarrow> [ef])
          else [])"

definition clear_sources :: "app \<Rightarrow> app" where
  "clear_sources st =
     (emit (stop_sources (sourcesRef st)) st)\<lparr>sourcesRef := [], nextStartTimeRef := 0\<rparr>"

definition stopSession_v1 :: "app \<Rightarrow> app" where
  "stopSession_v1 st =
     (let st1 = st\<lparr>isActive := False\<rparr>;
          st2 = close_session_v1 st1;
          st3 = stop_stream st2;
          st4 = (emit (close_ctx_v1 (inputAudioCtxRef st3)) st3)\<lparr>inputAudioCtxRef := None\<rparr>;
          st5 = (emit (close_ctx_v1 (outputAudioCtxRef st4)) st4)\<lparr>outputAudioCtxRef := None\<rparr>
      in clear_sources st5)"

text \<open>
  The later revision is an \<open>async\<close> function with three awaits: of the session's
  \<open>close\<close> (line 549), of the input context's \<open>close\<close> (line 557) and of the output
  context's \<open>close\<close> (line 561). A call runs until it waits at one of them, is
  done, or has failed: an awaited \<open>close\<close> that rejects is not caught, and the call
  ends there with the state as the statements before it left it.
\<close>

datatype stop_pc = AwaitSessionClose | AwaitInputClose | AwaitOutputClose

datatype stop_result = Waiting stop_pc app | Done app | Failed error app

text \<open>Lines 564 to 566.\<close>

definition finish_stop_v2 :: "app \<Rightarrow> stop_result" where
  "finish_stop_v2 st = Done (clear_sources st)"

text \<open>
  Lines 560 to 563, and on from there. Calling \<open>close\<close> marks the context the
  reference holds.
\<close>

definition close_output_v2 :: "app \<Rightarrow> stop_result" where
  "close_output_v2 st =
     (case outputAudioCtxRef st of
        None \<Rightarrow> finish_stop_v2 st
      | Some c \<Rightarrow>
          if ctx_state c \<noteq> Closed
          then (case ctx_close c of
                  Inl e \<Rightarrow> Failed e st
                | Inr ef \<Rightarrow>
                    Waiting AwaitOutputClose
                      ((emit [ef] st)\<lparr>outputAudioCtxRef := Some (c\<lparr>close_called := True\<rparr>)\<rparr>))
          else finish_stop_v2 (st\<lparr>outputAudioCtxRef := None\<rparr>))"

text \<open>Lines 556 to 559, and on from there.\<close>

definition close_input_v2 :: "app \<Rightarrow> stop_result" where
  "close_input_v2 st =
     (case inputAudioCtxRef st of
        None \<Rightarrow> close_output_v2 st
      | Some c \<Rightarrow>
          if ctx_state c \<noteq> Closed
          then (case ctx_close c of
                  Inl e \<Rightarrow> Failed e st
                | Inr ef \<Rightarrow>
                    Waiting AwaitInputClose
                      ((emit [ef] st)\<lparr>inputAudioCtxRef := Some (c\<lparr>close_called := True\<rparr>)\<rparr>))
          else close_output_v2 (st\<lparr>inputAudioCtxRef := None\<rparr>))"

text \<open>
  A call from its first statement. When the session's \<open>close\<close> throws, the
  \<open>catch\<close> takes it and the call goes on without waiting.
\<close>

definition stopSession_v2_begin :: "app \<Rightarrow> stop_result" where
  "stopSession_v2_begin st =
     (let st1 = st\<lparr>isActive := False, isMayaSpeaking := False\<rparr>
      in case sessionRef st1 of
           None \<Rightarrow> close_input_v2 (stop_stream st1)
         | Some s \<Rightarrow>
             (case session_close s of
                Inl e \<Rightarrow> close_input_v2 (stop_stream (close_session_v2 st1))
              | Inr ef \<Rightarrow> Waiting AwaitSessionClose (emit [ef] st1)))"

text \<open>
  A waiting call goes on when the promise it awaits has settled. The statement
  after each \<open>await\<close> clears the reference, whatever it holds by then.
\<close>

definition stopSession_v2_resume :: "stop_pc \<Rightarrow> app \<Rightarrow> stop_result" where
  "stopSession_v2_resume pc st =
     (case pc of
        AwaitSessionClose \<Rightarrow> close_input_v2 (stop_stream (st\<lparr>sessionRef := None\<rparr>))
      | AwaitInputClose \<Rightarrow> close_output_v2 (st\<lparr>inputAudioCtxRef := None\<rparr>)
      | AwaitOutputClose \<Rightarrow> finish_stop_v2 (st\<lparr>outputAudioCtxRef := None\<rparr>))"

text \<open>
  A call, or the rest of one, carried to its end with nothing else running while
  it waits.
\<close>

function stopSession_v2_run :: "stop_result \<Rightarrow> (error \<times> app) + app" where
  "stopSession_v2_run (Done st) = Inr st"
| "stopSession_v2_run (Failed e st) = Inl (e, st)"
| "stopSession_v2_run (Waiting pc st) = stopSession_v2_run (stopSession_v2_resume pc st)"
  by pat_completeness auto
termination
  by (relation "measure (\<lambda>r. case r of
          Waiting AwaitSessionClose st \<Rightarrow> 3
        | Waiting AwaitInputClose st \<Rightarrow> 2
        | Waiting AwaitOutputClose st \<Rightarrow> 1
        | _ \<Rightarrow> 0)")
    (auto simp add: stopSession_v2_resume_def close_input_v2_def close_output_v2_def
      finish_stop_v2_def split: stop_pc.splits option.splits sum.splits)

definition stopSession_v2 :: "app \<Rightarrow> (error \<times> app) + app" where
  "stopSession_v2 st = stopSession_v2_run (stopSession_v2_begin st)"

text \<open>
  A reference holds a context whose \<open>close\<close> has been called and has not yet
  settled.
\<close>

definition close_pending :: "audio_ctx option \<Rightarrow> bool" where
  "close_pending r =
     (case r of None \<Rightarrow> False | Some c \<Rightarrow> close_called c \<and> ctx_state c \<noteq> Closed)"

text \<open>What the claim about teardown asks of the state it leaves.\<close>

definition torn_down :: "app \<Rightarrow> bool" where
  "torn_down st =
     (sessionRef st = None \<and> streamRef st = None \<and> inputAudioCtxRef st = None
      \<and> outputAudioCtxRef st = None \<and> sourcesRef st = [] \<and> nextStartTimeRef st = 0)"

section \<open>Messages from the live session: \<open>onmessage\<close>\<close>

text \<open>
  The fields of a \<open>LiveServerMessage\<close> the handlers read: the two optional
  transcriptions (each with an optional \<open>text\<close>), the turn-complete flag, the
  \<open>inlineData?.data\<close> of every part of \<open>modelTurn.parts\<close> (the empty list when there
  is none) and the interruption flag.
\<close>

record transcription =
  transcription_text :: "string option"

record live_message =
  inputTranscription :: "transcription option"
  outputTranscription :: "transcription option"
  turnComplete :: bool
  parts :: "string option list"
  interrupted :: bool

text \<open>\<open>+=\<close> on a string with a possibly undefined right-hand side.\<close>

definition js_string :: "string option \<Rightarrow> string" where
  "js_string t = (case t of None \<Rightarrow> ''undefined'' | Some s \<Rightarrow> s)"

definition append_transcriptions :: "live_message \<Rightarrow> app \<Rightarrow> app" where
  "append_transcriptions m st =
     (let st1 =
        (case inputTranscription m of
           None \<Rightarrow> st
         | Some t \<Rightarrow>
             st\<lparr>currentInputTranscription :=
                  currentInputTranscription st @ js_string (transcription_text t)\<rparr>)
      in case outputTranscription m of
           None \<Rightarrow> st1
         | Some t \<Rightarrow>
             st1\<lparr>currentOutputTranscription :=
                   currentOutputTranscription st1 @ js_string (transcription_text t)\<rparr>)"

text \<open>Earlier revision, lines 161 to 166: the body of the turn-complete test.\<close>

definition flush_turn :: "app \<Rightarrow> app" where
  "flush_turn st =
     (let userInput = currentInputTranscription st;
          mayaOutput = currentOutputTranscription st;
          st1 = (if userInput \<noteq> [] then addMessage_v1 User userInput st else st);
          st2 = (if mayaOutput \<noteq> [] then addMessage_v1 Maya mayaOutput st1 else st1)
      in st2\<lparr>currentInputTranscription := [], currentOutputTranscription := []\<rparr>)"

text \<open>
  Times are JavaScript Numbers, that is, doubles. A double is the real number it
  stands for; \<open>Math.max\<close> of two doubles is exact, and the sum of two doubles is
  their real sum rounded to the nearest double, ties to the even significand.
  \<open>fl\<close> is that rounding, with 53 bits of significand and the exponent left
  unbounded. Sums are taken to stay below \<open>2\<^sup>1\<^sup>0\<^sup>2\<^sup>4\<close>, where a double
  overflows, which no time in seconds comes near; a sum of two doubles that falls
  in the range of gradual underflow is exact, here as there.
\<close>

definition round_even :: "real \<Rightarrow> int" where
  "round_even y =
     (let q = \<lfloor>y\<rfloor>; r = y - of_int q
      in if r < 1 / 2 then q else if 1 / 2 < r then q + 1 else if even q then q else q + 1)"

definition binade :: "real \<Rightarrow> int" where
  "binade x = \<lfloor>log 2 \<bar>x\<bar>\<rfloor>"

definition fl :: "real \<Rightarrow> real" where
  "fl x =
     (if x = 0 then 0
      else (let u = 2 powr (of_int (binade x) - 52) in of_int (round_even (x / u)) * u))"

definition js_add :: "real \<Rightarrow> real \<Rightarrow> real" where
  "js_add x y = fl (x + y)"

text \<open>A time: a double that is not negative.\<close>

definition time :: "real \<Rightarrow> bool" where
  "time t = (0 \<le> t \<and> fl t = t)"

text \<open>
  Scheduling one chunk (earlier revision lines 179 to 196, later revision lines
  612 to 623). \<open>now\<close> is the value read from \<open>currentTime\<close> of the output context.
  \<open>decode\<close> and \<open>decodeAudioData\<close> are not among the sources: \<open>bufferDuration\<close>,
  a parameter, gives the \<open>duration\<close> of the buffer decoded from a payload.
\<close>

definition scheduleChunk :: "(string \<Rightarrow> real) \<Rightarrow> real \<Rightarrow> string \<Rightarrow> app \<Rightarrow> app" where
  "scheduleChunk bufferDuration now base64Audio st =
     (let t = max (nextStartTimeRef st) now;
          d = bufferDuration base64Audio;
          source = \<lparr>start_at = t, duration = d, started = True\<rparr>
      in (emit [SourceStart t d] st)
           \<lparr>nextStartTimeRef := js_add t d, sourcesRef := sourcesRef st @ [source]\<rparr>)"

definition resume_output :: "app \<Rightarrow> app" where
  "resume_output st =
     (case outputAudioCtxRef st of
        None \<Rightarrow> st
      | Some c \<Rightarrow>
          if ctx_state c = Suspended
          then (emit [CtxResume (ctx_id c)] st)
                 \<lparr>outputAudioCtxRef := Some (c\<lparr>ctx_state := Running\<rparr>)\<rparr>
          else st)"

definition play_part_v1 :: "(string \<Rightarrow> real) \<Rightarrow> real \<Rightarrow> string option \<Rightarrow> app \<Rightarrow> app" where
  "play_part_v1 bufferDuration now part st =
     (case part of
        None \<Rightarrow> st
      | Some base64Audio \<Rightarrow>
          if base64Audio \<noteq> [] \<and> outputAudioCtxRef st \<noteq> None
          then scheduleChunk bufferDuration now base64Audio (resume_output st)
          else st)"

primrec play_parts_v1 ::
  "(string \<Rightarrow> real) \<Rightarrow> (nat \<Rightarrow> real) \<Rightarrow> nat \<Rightarrow> string option list \<Rightarrow> app \<Rightarrow> app" where
  "play_parts_v1 bufferDuration clock i [] st = st"
| "play_parts_v1 bufferDuration clock i (p # ps) st =
     play_parts_v1 bufferDuration clock (Suc i) ps (play_part_v1 bufferDuration (clock i) p st)"

text \<open>
  A handler reads \<open>currentTime\<close> once for every chunk it schedules: \<open>clock i\<close> is
  the value of the read made for part \<open>i\<close> of the message. Between that read and
  the start of the source the handler awaits the decoding of the chunk; a message
  is taken to be handled to its end before the next one is.

  The handler of the earlier revision. The interruption branch (lines 201 to 205)
  is the same three statements as the end of teardown.
\<close>

definition onmessage_v1 ::
  "(string \<Rightarrow> real) \<Rightarrow> (nat \<Rightarrow> real) \<Rightarrow> live_message \<Rightarrow> app \<Rightarrow> app" where
  "onmessage_v1 bufferDuration clock m st =
     (let st1 = append_transcriptions m st;
          st2 = (if turnComplete m then flush_turn st1 else st1);
          st3 = play_parts_v1 bufferDuration clock 0 (parts m) st2
      in if interrupted m then clear_sources st3 else st3)"

text \<open>
  The handler of the later revision reads the first part only, uses the output
  context it captured, and keeps the speaking indicator.
\<close>

definition play_first_v2 :: "(string \<Rightarrow> real) \<Rightarrow> real \<Rightarrow> string option list \<Rightarrow> app \<Rightarrow> app" where
  "play_first_v2 bufferDuration now ps st =
     (case ps of
        [] \<Rightarrow> st
      | p # rest \<Rightarrow>
          (case p of
             None \<Rightarrow> st
           | Some base64Audio \<Rightarrow>
               if base64Audio \<noteq> []
               then scheduleChunk bufferDuration now base64Audio (st\<lparr>isMayaSpeaking := True\<rparr>)
               else st))"

definition onmessage_v2 ::
  "(string \<Rightarrow> real) \<Rightarrow> (nat \<Rightarrow> real) \<Rightarrow> live_message \<Rightarrow> app \<Rightarrow> app" where
  "onmessage_v2 bufferDuration clock m st =
     (let st1 = play_first_v2 bufferDuration (clock 0) (parts m) st
      in if interrupted m then (clear_sources st1)\<lparr>isMayaSpeaking := False\<rparr> else st1)"



text \<open>
  The \<open>ended\<close> listener of a source takes it out of the set; the later revision
  also lowers the speaking indicator when the set becomes empty.
\<close>

definition source_ended_v1 :: "buffer_source \<Rightarrow> app \<Rightarrow> app" where
  "source_ended_v1 s st = st\<lparr>sourcesRef := remove1 s (sourcesRef st)\<rparr>"

definition source_ended_v2 :: "buffer_source \<Rightarrow> app \<Rightarrow> app" where
  "source_ended_v2 s st =
     (let st1 = st\<lparr>sourcesRef := remove1 s (sourcesRef st)\<rparr>
      in if sourcesRef st1 = [] then st1\<lparr>isMayaSpeaking := False\<rparr> else st1)"

text \<open>
  The playback schedule a trace holds: start time and duration of every
  \<open>source.start\<close>, in order. \<open>no_overlap\<close> reads the claim about it: each entry starts
  no earlier than the one before it started, and no earlier than that one ends,
  the end being the real sum of start and duration. \<open>no_overlap_js\<close> takes the end
  as the program computes it, the sum of the two Numbers.
\<close>

fun schedule :: "effect list \<Rightarrow> (real \<times> real) list" where
  "schedule [] = []"
| "schedule (SourceStart t d # es) = (t, d) # schedule es"
| "schedule (e # es) = schedule es"



definition new_effects :: "app \<Rightarrow> app \<Rightarrow> effect list" where
  "new_effects st st' = drop (length (effects st)) (effects st')"



text \<open>A message that carries one audio payload and nothing else.\<close>

definition audio_message :: "string \<Rightarrow> live_message" where
  "audio_message base64Audio =
     \<lparr>inputTranscription = None, outputTranscription = None, turnComplete = False,
      parts = [Some base64Audio], interrupted = False\<rparr>"


section \<open>Capture: \<open>onaudioprocess\<close>\<close>

text \<open>
  The frame handler is a closure made in \<open>onopen\<close>. It encodes the frame and
  hands the blob to a \<open>then\<close> callback of \<open>sessionPromise\<close>; \<open>session\<close> is the
  handle that promise has resolved to. The earlier revision sends only while
  \<open>sessionRef.current\<close> is set, the later revision sends in every case.
\<close>

definition onaudioprocess_v1 ::
  "(8 word list \<Rightarrow> string) \<Rightarrow> session \<Rightarrow> js_number list \<Rightarrow> app \<Rightarrow> app" where
  "onaudioprocess_v1 encode session inputData st =
     (let pcmBlob = createBlob_v1 encode inputData
      in if sessionRef st \<noteq> None
         then emit [SendRealtimeInput (session_id session) pcmBlob] st
         else st)"

definition onaudioprocess_v2 ::
  "(8 word list \<Rightarrow> string) \<Rightarrow> session \<Rightarrow> js_number list \<Rightarrow> app \<Rightarrow> app" where
  "onaudioprocess_v2 encode session inputData st =
     (let pcmBlob = createBlob_v2 encode inputData
      in emit [SendRealtimeInput (session_id session) pcmBlob] st)"

section \<open>Starting a session: \<open>startLiveSession\<close>\<close>

text \<open>
  What the environment answers during one start: whether an API key is
  configured, the identities of the two audio contexts the constructor returns
  and whether they come up suspended, the outcome of \<open>getUserMedia\<close> and the
  outcome of \<open>ai.live.connect\<close>. The \<open>AudioContext\<close> constructor is taken to
  succeed.
\<close>

record start_env =
  api_key :: bool
  input_ctx_id :: nat
  input_ctx_suspended :: bool
  output_ctx_id :: nat
  output_ctx_suspended :: bool
  user_media :: "error + media_stream"
  live_connect :: "error + session"

definition new_ctx :: "nat \<Rightarrow> nat \<Rightarrow> bool \<Rightarrow> audio_ctx" where
  "new_ctx i rate suspended =
     \<lparr>ctx_id = i, sampleRate = rate, ctx_state = (if suspended then Suspended else Running),
      close_called = False\<rparr>"

text \<open>
  The later revision, lines 569 to 638. A start waits three times: for the
  teardown it calls first (line 572), for the microphone (line 582) and for the
  session (line 636). It runs until it waits, has finished, or has ended in its
  \<open>catch\<close>, which calls \<open>stopSession\<close> without awaiting it; the result then
  tells where that call stands.
\<close>

datatype start_pc = AwaitStop stop_pc | AwaitUserMedia | AwaitConnect

datatype start_result = StartWaiting start_pc app | StartFinished app | StartCaught stop_result

text \<open>Lines 573 to 582: from \<open>setIsActive(true)\<close> to the call of \<open>getUserMedia\<close>.\<close>

definition create_contexts_v2 :: "start_env \<Rightarrow> app \<Rightarrow> start_result" where
  "create_contexts_v2 env st =
     (let st1 = st\<lparr>isActive := True\<rparr>;
          inputCtx = new_ctx (input_ctx_id env) 16000 (input_ctx_suspended env);
          outputCtx = new_ctx (output_ctx_id env) 24000 (output_ctx_suspended env)
      in StartWaiting AwaitUserMedia
           ((emit [CtxCreate (ctx_id inputCtx) 16000, CtxCreate (ctx_id outputCtx) 24000] st1)
              \<lparr>inputAudioCtxRef := Some inputCtx, outputAudioCtxRef := Some outputCtx\<rparr>))"

text \<open>How a start goes on from where the teardown it awaits stands.\<close>

definition after_stop_v2 :: "start_env \<Rightarrow> stop_result \<Rightarrow> start_result" where
  "after_stop_v2 env r =
     (case r of
        Waiting pc st \<Rightarrow> StartWaiting (AwaitStop pc) st
      | Done st \<Rightarrow> create_contexts_v2 env st
      | Failed e st \<Rightarrow> StartCaught (stopSession_v2_begin st))"

definition startLiveSession_v2_begin :: "start_env \<Rightarrow> app \<Rightarrow> start_result" where
  "startLiveSession_v2_begin env st =
     (if \<not> api_key env then StartFinished (emit [Alert ''API Key missing''] st)
      else after_stop_v2 env (stopSession_v2_begin st))"

text \<open>
  A waiting start goes on when the promise it awaits has settled: the teardown
  has moved on, the microphone is granted or refused, the session is connected
  or not. The stream and the session are stored in the references whatever these
  hold by then.
\<close>

definition startLiveSession_v2_resume :: "start_env \<Rightarrow> start_pc \<Rightarrow> app \<Rightarrow> start_result" where
  "startLiveSession_v2_resume env pc st =
     (case pc of
        AwaitStop spc \<Rightarrow> after_stop_v2 env (stopSession_v2_resume spc st)
      | AwaitUserMedia \<Rightarrow>
          (case user_media env of
             Inl e \<Rightarrow> StartCaught (stopSession_v2_begin st)
           | Inr stream \<Rightarrow>
               StartWaiting AwaitConnect
                 ((emit [GetUserMedia (tracks stream)] st)\<lparr>streamRef := Some stream\<rparr>))
      | AwaitConnect \<Rightarrow>
          (case live_connect env of
             Inl e \<Rightarrow> StartCaught (stopSession_v2_begin st)
           | Inr s \<Rightarrow>
               StartFinished
                 ((addMessage_v2 Maya ''[System: Neural Link established. Talk to Maya.]'' None
                     (emit [Connect (session_id s)] st))
                    \<lparr>sessionRef := Some s\<rparr>)))"

text \<open>
  Earlier revision, lines 93 to 223: no teardown comes first, the contexts are
  stored as they are created and resumed when suspended. The start is taken with
  nothing else running while it waits.
\<close>

definition resume_ctx :: "audio_ctx \<Rightarrow> effect list \<times> audio_ctx" where
  "resume_ctx c =
     (if ctx_state c = Suspended then ([CtxResume (ctx_id c)], c\<lparr>ctx_state := Running\<rparr>)
      else ([], c))"

definition startLiveSession_v1 :: "start_env \<Rightarrow> app \<Rightarrow> app" where
  "startLiveSession_v1 env st =
     (if \<not> api_key env then emit [Alert ''API Key missing''] st
      else
        (let st1 = st\<lparr>isActive := True\<rparr>;
             inputCtx = new_ctx (input_ctx_id env) 16000 (input_ctx_suspended env);
             outputCtx = new_ctx (output_ctx_id env) 24000 (output_ctx_suspended env);
             st2 = emit [CtxCreate (ctx_id inputCtx) 16000, CtxCreate (ctx_id outputCtx) 24000] st1;
             st3 = (emit (fst (resume_ctx inputCtx) @ fst (resume_ctx outputCtx)) st2)
                     \<lparr>inputAudioCtxRef := Some (snd (resume_ctx inputCtx)),
                      outputAudioCtxRef := Some (snd (resume_ctx outputCtx))\<rparr>
         in case user_media env of
              Inl e \<Rightarrow> stopSession_v1 st3
            | Inr stream \<Rightarrow>
                (let st4 = (emit [GetUserMedia (tracks stream)] st3)\<lparr>streamRef := Some stream\<rparr>
                 in case live_connect env of
                      Inl e \<Rightarrow> stopSession_v1 st4
                    | Inr s \<Rightarrow> (emit [Connect (session_id s)] st4)\<lparr>sessionRef := Some s\<rparr>)))"

section \<open>Live resources along a trace\<close>

text \<open>
  What is live in the world after a trace: the microphone tracks acquired and not
  yet stopped, the sessions connected on which \<open>close\<close> has not yet been called,
  and the audio contexts (with their sample rates) created and not yet closed.
  Lists, not sets: an identity handed out twice counts twice.
\<close>

record world =
  live_tracks :: "nat list"
  live_sessions :: "nat list"
  open_ctxs :: "(nat \<times> nat) list"

definition empty_world :: world where
  "empty_world = \<lparr>live_tracks = [], live_sessions = [], open_ctxs = []\<rparr>"

fun close_ctx_id :: "nat \<Rightarrow> (nat \<times> nat) list \<Rightarrow> (nat \<times> nat) list" where
  "close_ctx_id i [] = []"
| "close_ctx_id i (c # cs) = (if fst c = i then cs else c # close_ctx_id i cs)"

fun world_step :: "world \<Rightarrow> effect \<Rightarrow> world" where
  "world_step w (GetUserMedia ts) = w\<lparr>live_tracks := live_tracks w @ ts\<rparr>"
| "world_step w (TrackStop t) = w\<lparr>live_tracks := remove1 t (live_tracks w)\<rparr>"
| "world_step w (Connect s) = w\<lparr>live_sessions := live_sessions w @ [s]\<rparr>"
| "world_step w (SessionClose s) = w\<lparr>live_sessions := remove1 s (live_sessions w)\<rparr>"
| "world_step w (CtxCreate i rate) = w\<lparr>open_ctxs := open_ctxs w @ [(i, rate)]\<rparr>"
| "world_step w (CtxClose i) = w\<lparr>open_ctxs := close_ctx_id i (open_ctxs w)\<rparr>"
| "world_step w e = w"

primrec world_after :: "world \<Rightarrow> effect list \<Rightarrow> world" where
  "world_after w [] = w"
| "world_after w (e # es) = world_after (world_step w e) es"

text \<open>
  An acquisition is admissible in a world when nothing it would double is live: a
  microphone is acquired only while no track and no session is live, a session is
  connected only while no session is live, and an audio context is created only
  while no track, no session and no context of the same sample rate is live.
\<close>

fun admissible :: "world \<Rightarrow> effect \<Rightarrow> bool" where
  "admissible w (GetUserMedia ts) = (live_tracks w = [] \<and> live_sessions w = [])"
| "admissible w (Connect s) = (live_sessions w = [])"
| "admissible w (CtxCreate i rate) =
     (live_tracks w = [] \<and> live_sessions w = [] \<and> rate \<notin> set (map snd (open_ctxs w)))"
| "admissible w e = True"

primrec exclusive_from :: "world \<Rightarrow> effect list \<Rightarrow> bool" where
  "exclusive_from w [] = True"
| "exclusive_from w (e # es) = (admissible w e \<and> exclusive_from (world_step w e) es)"

definition exclusive :: "effect list \<Rightarrow> bool" where
  "exclusive es = exclusive_from empty_world es"

text \<open>
  A session in progress, for the examples: contexts 1 and 2, a stream with track
  3, session 4, all acquired in that order; the environment that grants a first
  start just these; and an environment that grants the next start contexts 5 and
  6, a stream with track 7 and session 8.
\<close>

definition example_active :: app where
  "example_active =
     initial_app
       \<lparr>isActive := True,
        inputAudioCtxRef :=
          Some \<lparr>ctx_id = 1, sampleRate = 16000, ctx_state = Running, close_called = False\<rparr>,
        outputAudioCtxRef :=
          Some \<lparr>ctx_id = 2, sampleRate = 24000, ctx_state = Running, close_called = False\<rparr>,
        sessionRef := Some \<lparr>session_id = 4, close_throws = False\<rparr>,
        streamRef := Some \<lparr>tracks = [3]\<rparr>,
        effects := [CtxCreate 1 16000, CtxCreate 2 24000, GetUserMedia [3], Connect 4]\<rparr>"

definition example_first_env :: start_env where
  "example_first_env =
     \<lparr>api_key = True, input_ctx_id = 1, input_ctx_suspended = False, output_ctx_id = 2,
      output_ctx_suspended = False, user_media = Inr \<lparr>tracks = [3]\<rparr>,
      live_connect = Inr \<lparr>session_id = 4, close_throws = False\<rparr>\<rparr>"

definition example_env :: start_env where
  "example_env =
     \<lparr>api_key = True, input_ctx_id = 5, input_ctx_suspended = False, output_ctx_id = 6,
      output_ctx_suspended = False, user_media = Inr \<lparr>tracks = [7]\<rparr>,
      live_connect = Inr \<lparr>session_id = 8, close_throws = False\<rparr>\<rparr>"

section \<open>Text prompts: \<open>handleDeepPrompt\<close>\<close>

text \<open>
  \<open>!text.trim()\<close>: \<open>String.prototype.trim\<close> is the engine's. It strips the white
  space and the line terminators of Unicode from both ends, and which those are
  in a text depends on how the text is held. The handlers take \<open>trim\<close> as a
  parameter. \<open>trim_ascii\<close> is what it does to a text of ASCII characters, where
  the characters stripped are tab, line feed, vertical tab, form feed, carriage
  return and space.
\<close>

definition ascii_space :: "char \<Rightarrow> bool" where
  "ascii_space c = (c \<in> set [CHR 0x09, CHR 0x0A, CHR 0x0B, CHR 0x0C, CHR 0x0D, CHR '' ''])"

definition trim_ascii :: "string \<Rightarrow> string" where
  "trim_ascii t = rev (dropWhile ascii_space (rev (dropWhile ascii_space t)))"

text \<open>\<open>String.prototype.includes\<close>\<close>

fun starts_with :: "string \<Rightarrow> string \<Rightarrow> bool" where
  "starts_with s [] = True"
| "starts_with [] (c # cs) = False"
| "starts_with (x # xs) (c # cs) = (x = c \<and> starts_with xs cs)"

fun js_includes :: "string \<Rightarrow> string \<Rightarrow> bool" where
  "js_includes [] sub = (sub = [])"
| "js_includes (x # xs) sub = (starts_with (x # xs) sub \<or> js_includes xs sub)"

text \<open>
  What \<open>generateContent\<close> resolves to, as far as the handlers read it: the text
  (empty when there is none) and, for the image mode, the \<open>inlineData?.data\<close> of
  each part of the first candidate, or nothing when there is no such candidate.
\<close>

record gen_response =
  response_text :: string
  candidate_parts :: "string option list option"

text \<open>Later revision, lines 534 to 541; \<open>msg\<close> is the message of the error.\<close>

definition handleApiError :: "string \<Rightarrow> app \<Rightarrow> app" where
  "handleApiError msg st =
     (if js_includes msg ''429'' \<or> js_includes msg ''quota''
      then addMessage_v2 Maya
             ''[System: Neural Link saturated. Please wait a moment for the pathways to clear.]''
             None st
      else addMessage_v2 Maya (''[System Link Failure: '' @ take 50 msg @ ''...]'') None st)"

text \<open>
  The handler runs up to its \<open>await\<close>, and its second half runs when the request
  resolves or rejects. Later revision, lines 640 to 683: the first half. In the
  live mode no branch issues a request and \<open>finally\<close> runs at once.
\<close>

definition handleDeepPrompt_v2 :: "(string \<Rightarrow> string) \<Rightarrow> string \<Rightarrow> app \<Rightarrow> app" where
  "handleDeepPrompt_v2 trim t st =
     (if trim t = [] \<or> isThinking st then st
      else
        (let st1 = addMessage_v2 User t None (st\<lparr>isThinking := True\<rparr>)
         in case mode st1 of
              DEEP_THOUGHT \<Rightarrow> emit [GenerateContent MODELS_THINKING t] st1
            | SEARCH \<Rightarrow> emit [GenerateContent MODELS_SEARCH t] st1
            | IMAGE \<Rightarrow> emit [GenerateContent MODELS_IMAGE (''A visual interpretation of: '' @ t)] st1
            | LIVE \<Rightarrow> st1\<lparr>isThinking := False\<rparr>))"

text \<open>The image mode keeps the data of the last part that has any.\<close>

primrec last_image :: "string option list \<Rightarrow> string \<Rightarrow> string" where
  "last_image [] url = url"
| "last_image (p # ps) url =
     last_image ps (case p of None \<Rightarrow> url | Some d \<Rightarrow> ''data:image/png;base64,'' @ d)"

text \<open>
  The second half when the request of mode \<open>m\<close> resolves: the branch's
  \<open>addMessage\<close>, then \<open>finally\<close>. Where the response has no candidate to read,
  the read throws a \<open>TypeError\<close> and the \<open>catch\<close> runs; the engine's wording of
  its message stands as \<open>TypeError\<close> here.
\<close>

definition deepPrompt_resolved_v2 :: "MayaMode \<Rightarrow> gen_response \<Rightarrow> app \<Rightarrow> app" where
  "deepPrompt_resolved_v2 m response st =
     (let st1 =
        (case m of
           DEEP_THOUGHT \<Rightarrow>
             addMessage_v2 Maya
               (if response_text response \<noteq> [] then response_text response
                else ''Thinking is a complex dance.'') None st
         | SEARCH \<Rightarrow>
             addMessage_v2 Maya
               (if response_text response \<noteq> [] then response_text response
                else ''Gathered some fresh insights for you.'') None st
         | IMAGE \<Rightarrow>
             (case candidate_parts response of
                None \<Rightarrow> handleApiError ''TypeError'' st
              | Some ps \<Rightarrow>
                  addMessage_v2 Maya ''Vision manifestation complete.''
                    (Some (last_image ps [])) st)
         | LIVE \<Rightarrow> st)
      in st1\<lparr>isThinking := False\<rparr>)"

text \<open>The second half when the request rejects: \<open>catch\<close>, then \<open>finally\<close>.\<close>

definition deepPrompt_rejected_v2 :: "string \<Rightarrow> app \<Rightarrow> app" where
  "deepPrompt_rejected_v2 msg st = (handleApiError msg st)\<lparr>isThinking := False\<rparr>"

text \<open>
  Earlier revision, lines 225 to 262. The handler itself does not read the busy
  flag; the text input that calls it is disabled while the flag is set or the
  mode is the live one, and a disabled input receives no key.
\<close>

definition handleDeepPrompt_v1 :: "(string \<Rightarrow> string) \<Rightarrow> string \<Rightarrow> app \<Rightarrow> app" where
  "handleDeepPrompt_v1 trim t st =
     (if trim t = [] then st
      else
        (let st1 = addMessage_v1 User t (st\<lparr>isThinking := True\<rparr>)
         in if mode st1 = DEEP_THOUGHT then emit [GenerateContent MODELS_THINKING t] st1
            else emit [GenerateContent MODELS_SEARCH t] st1))"

definition deepPrompt_resolved_v1 :: "gen_response \<Rightarrow> app \<Rightarrow> app" where
  "deepPrompt_resolved_v1 response st =
     (addMessage_v1 Maya
        (if response_text response \<noteq> [] then response_text response
         else ''I'' @ [CHR 0x27] @ ''m so'' @ ''rry, I couldn'' @ [CHR 0x27] @ ''t process that.'') st)
       \<lparr>isThinking := False\<rparr>"

definition deepPrompt_rejected_v1 :: "app \<Rightarrow> app" where
  "deepPrompt_rejected_v1 st =
     (addMessage_v1 Maya
        (''Oops, something went wrong while I was thinking. Let'' @ [CHR 0x27]
           @ ''s try again.'') st)
       \<lparr>isThinking := False\<rparr>"

text \<open>The Enter key on the text input of each revision.\<close>

definition onEnter_v1 :: "(string \<Rightarrow> string) \<Rightarrow> string \<Rightarrow> app \<Rightarrow> app" where
  "onEnter_v1 trim t st =
     (if mode st = LIVE \<or> isThinking st then st else handleDeepPrompt_v1 trim t st)"

definition onEnter_v2 :: "(string \<Rightarrow> string) \<Rightarrow> string \<Rightarrow> app \<Rightarrow> app" where
  "onEnter_v2 trim t st =
     (if mode st = LIVE \<or> isThinking st then st else handleDeepPrompt_v2 trim t st)"

section \<open>Condensing the history: \<open>condenseHistory\<close>\<close>

text \<open>
  Later revision, lines 504 to 522. The handler does nothing on fewer than four
  Messages. It does not read the busy flag: it sets it, asks for a summary of the
  list, and clears it in \<open>finally\<close>. The button that calls it is never disabled.
  \<open>historyText\<close> is the list with one line for each Message.
\<close>

definition role_string :: "role \<Rightarrow> string" where
  "role_string r = (case r of User \<Rightarrow> ''user'' | Maya \<Rightarrow> ''maya'')"

fun js_join :: "string \<Rightarrow> string list \<Rightarrow> string" where
  "js_join sep [] = []"
| "js_join sep [x] = x"
| "js_join sep (x # y # zs) = x @ sep @ js_join sep (y # zs)"

definition historyText :: "message list \<Rightarrow> string" where
  "historyText ms =
     js_join [CHR 0x0A] (map (\<lambda>m. role_string (msg_role m) @ '': '' @ msg_text m) ms)"

definition condense_contents :: "message list \<Rightarrow> string" where
  "condense_contents ms =
     ''Summarize this conversation into a concise '' @ [CHR 0x22] @ ''Neural Memory''
       @ [CHR 0x22] @ '' block. Text: '' @ [CHR 0x0A] @ historyText ms"

text \<open>The first half, up to the \<open>await\<close> of the request.\<close>

definition condenseHistory :: "app \<Rightarrow> app" where
  "condenseHistory st =
     (if length (messages st) < 4 then st
      else emit [GenerateContent MODELS_THINKING (condense_contents (messages st))]
             (st\<lparr>isThinking := True\<rparr>))"

text \<open>The second half when the request resolves, and when it rejects.\<close>

definition condenseHistory_resolved :: "gen_response \<Rightarrow> app \<Rightarrow> app" where
  "condenseHistory_resolved response st =
     (addMessage_v2 Maya
        (''[System: Memory Condensed] ''
           @ (if response_text response \<noteq> [] then response_text response
              else ''History condensed.'')) None st)
       \<lparr>isThinking := False\<rparr>"

definition condenseHistory_rejected :: "string \<Rightarrow> app \<Rightarrow> app" where
  "condenseHistory_rejected msg st = (handleApiError msg st)\<lparr>isThinking := False\<rparr>"

section \<open>Properties of the PCM encoder\<close>

lemma js_truncate_bounds:
  "- 32768 \<le> r \<Longrightarrow> r \<le> 32767 \<Longrightarrow> - 32768 \<le> js_truncate r \<and> js_truncate r \<le> 32767"
  unfolding js_truncate_def
  by (auto simp: le_floor_iff ceiling_le_iff floor_le_iff le_ceiling_iff)

lemma sint_int16_in_range:
  "- 32768 \<le> k \<Longrightarrow> k \<le> 32767 \<Longrightarrow> sint (word_of_int k :: 16 word) = k"
  by (simp add: sint_sbintrunc' signed_take_bit_int_eq_self)

lemma sample_v2_Num:
  "sint (sample_v2 (Num r)) = js_truncate (max (- 32768) (min 32767 (r * 32768)))"
proof -
  let ?c = "max (- 32768) (min 32767 (r * 32768))"
  have "- 32768 \<le> ?c" "?c \<le> 32767" by auto
  then have "- 32768 \<le> js_truncate ?c \<and> js_truncate ?c \<le> 32767"
    by (rule js_truncate_bounds)
  then show ?thesis
    by (simp add: sample_v2_def sint_int16_in_range)
qed

lemma sample_v2_above: "1 \<le> r \<Longrightarrow> sint (sample_v2 (Num r)) = 32767"
  by (simp add: sample_v2_Num js_truncate_def min_def max_def)

lemma int16_v2_nth: "i < length dat \<Longrightarrow> int16_v2 dat ! i = sample_v2 (dat ! i)"
  by (induction dat arbitrary: i) (auto simp: nth_Cons split: nat.splits)

lemma int16_v1_nth: "i < length dat \<Longrightarrow> int16_v1 dat ! i = sample_v1 (dat ! i)"
  by (induction dat arbitrary: i) (auto simp: nth_Cons split: nat.splits)

lemma sample_in_range: "in_range x \<Longrightarrow> sample_v1 x = sample_v2 x"
proof (cases x)
  case (Num r)
  assume "in_range x"
  with Num have "- 32768 \<le> r * 32768" "r * 32768 \<le> 32767" by simp_all
  then have "max (- 32768) (min 32767 (r * 32768)) = r * 32768" by simp
  with Num show ?thesis by (simp add: sample_v1_def sample_v2_def)
qed simp_all

lemma int16_in_range: "\<forall>x\<in>set dat. in_range x \<Longrightarrow> int16_v1 dat = int16_v2 dat"
  by (induction dat) (simp_all add: sample_in_range)

text \<open>
  For contrast, the loop body of the earlier revision wraps: a sample of exactly
  1.0 is stored as the most negative 16-bit value.
\<close>

lemma sample_v1_wraps: "sint (sample_v1 (Num 1)) = - 32768"
  by (simp add: sample_v1_def js_truncate_def)

text \<open>
  Claim C4. The encoder of the later revision scales a sample by 32768 and clamps
  the product to the signed 16-bit range before it is stored: the stored element
  is the truncation of the clamped product, with no reduction modulo \<open>2^16\<close>. A
  sample of 1.0 or more, or plus infinity, is stored as 32767 (bytes \<open>FF 7F\<close>); a
  sample of -1.0 is stored as -32768.
\<close>

theorem createBlob_v2_clamps:
  "sint (sample_v2 (Num r)) = js_truncate (max (- 32768) (min 32767 (r * 32768)))
   \<and> (1 \<le> r \<longrightarrow> sint (sample_v2 (Num r)) = 32767)
   \<and> sint (sample_v2 PosInf) = 32767
   \<and> sint (sample_v2 (Num (- 1))) = - 32768
   \<and> (i < length dat \<and> dat ! i = Num r \<and> 1 \<le> r \<longrightarrow> sint (int16_v2 dat ! i) = 32767)
   \<and> (1 \<le> r \<longrightarrow> createBlob_v2 encode [Num r] =
         \<lparr>blob_data = encode [0xFF, 0x7F], mimeType = ''audio/pcm;rate=16000''\<rparr>)"
proof -
  have a: "1 \<le> r \<longrightarrow> sint (sample_v2 (Num r)) = 32767"
    by (simp add: sample_v2_above)
  have b: "sint (sample_v2 PosInf) = 32767"
    by (simp add: sample_v2_def js_truncate_def)
  have c: "sint (sample_v2 (Num (- 1))) = - 32768"
    by (simp add: sample_v2_def js_truncate_def)
  have d: "i < length dat \<and> dat ! i = Num r \<and> 1 \<le> r \<longrightarrow> sint (int16_v2 dat ! i) = 32767"
    by (simp add: int16_v2_nth sample_v2_above)
  have "1 \<le> r \<Longrightarrow> sample_v2 (Num r) = 32767"
  proof -
    assume "1 \<le> r"
    then have "sint (sample_v2 (Num r)) = sint (32767 :: 16 word)"
      by (simp add: sample_v2_above)
    then show ?thesis by (simp only: signed_word_eqI)
  qed
  moreover have "buffer_bytes [32767 :: 16 word] = [0xFF, 0x7F]"
    by simp
  ultimately have e: "1 \<le> r \<longrightarrow> createBlob_v2 encode [Num r] =
         \<lparr>blob_data = encode [0xFF, 0x7F], mimeType = ''audio/pcm;rate=16000''\<rparr>"
    by (simp add: createBlob_v2_def del: buffer_bytes.simps)
  from sample_v2_Num a b c d e show ?thesis by blast
qed

theorem createBlob_v2_clamps_witness:
  "sint (sample_v2 (Num 1)) = 32767 \<and> sint (sample_v2 (Num (3 / 2))) = 32767
   \<and> sint (int16_v2 [Num 0, Num 2] ! 1) = 32767
   \<and> createBlob_v2 (map (\<lambda>b. char_of (unat b))) [Num 1] =
        \<lparr>blob_data = map (\<lambda>b. char_of (unat b)) [0xFF, 0x7F :: 8 word],
         mimeType = ''audio/pcm;rate=16000''\<rparr>"
  using createBlob_v2_clamps [of 1 0 "[]" "map (\<lambda>b. char_of (unat b))"]
    createBlob_v2_clamps [of "3 / 2" 0 "[]" "map (\<lambda>b. char_of (unat b))"]
    createBlob_v2_clamps [of 2 1 "[Num 0, Num 2]" "map (\<lambda>b. char_of (unat b))"]
  by simp

text \<open>
  Claim C10. On every input whose samples all lie in \<open>[-1, 32767/32768]\<close> the
  unclamped and the clamped encoder fill the same bytes and return the same
  encoded blob, whatever \<open>encode\<close> is; sample by sample, the two stored elements
  can differ only where the input sample lies outside that range.
\<close>

theorem createBlob_versions_agree:
  "(in_range x \<longrightarrow> sample_v1 x = sample_v2 x)
   \<and> ((\<forall>x\<in>set dat. in_range x) \<longrightarrow>
        buffer_bytes (int16_v1 dat) = buffer_bytes (int16_v2 dat)
        \<and> createBlob_v1 encode dat = createBlob_v2 encode dat)
   \<and> (i < length dat \<and> int16_v1 dat ! i \<noteq> int16_v2 dat ! i \<longrightarrow> \<not> in_range (dat ! i))"
  by (auto simp: sample_in_range int16_in_range createBlob_v1_def createBlob_v2_def
      int16_v1_nth int16_v2_nth)

theorem createBlob_versions_agree_witness:
  "in_range (Num (1 / 2)) \<and> in_range (Num (- 1)) \<and> in_range (Num (32767 / 32768))
   \<and> createBlob_v1 (map (\<lambda>b. char_of (unat b))) [Num (1 / 2), Num (- 1), Num (32767 / 32768)]
     = createBlob_v2 (map (\<lambda>b. char_of (unat b))) [Num (1 / 2), Num (- 1), Num (32767 / 32768)]
   \<and> sample_v1 (Num (1 / 2)) = sample_v2 (Num (1 / 2))
   \<and> int16_v1 [Num 1] ! 0 \<noteq> int16_v2 [Num 1] ! 0 \<and> \<not> in_range ([Num 1] ! 0)"
  using createBlob_versions_agree [of "Num (1 / 2)" "[Num (1 / 2), Num (- 1), Num (32767 / 32768)]"
      "map (\<lambda>b. char_of (unat b))" 0]
    createBlob_versions_agree [of "Num (1 / 2)" "[Num 1]" "map (\<lambda>b. char_of (unat b))" 0]
  by (simp add: sample_v1_def sample_v2_def js_truncate_def)

section \<open>What each step leaves unchanged\<close>

lemma emit_Nil [simp]: "emit [] st = st"
  by (simp add: emit_def)

lemma emit_fields [simp]:
  "messages (emit es st) = messages st"
  "localStorage (emit es st) = localStorage st"
  "mode (emit es st) = mode st"
  "isActive (emit es st) = isActive st"
  "isThinking (emit es st) = isThinking st"
  "isMayaSpeaking (emit es st) = isMayaSpeaking st"
  "inputAudioCtxRef (emit es st) = inputAudioCtxRef st"
  "outputAudioCtxRef (emit es st) = outputAudioCtxRef st"
  "sourcesRef (emit es st) = sourcesRef st"
  "nextStartTimeRef (emit es st) = nextStartTimeRef st"
  "sessionRef (emit es st) = sessionRef st"
  "streamRef (emit es st) = streamRef st"
  "currentInputTranscription (emit es st) = currentInputTranscription st"
  "currentOutputTranscription (emit es st) = currentOutputTranscription st"
  "effects (emit es st) = effects st @ es"
  by (simp_all add: emit_def)

lemma close_session_fields [simp]:
  "sessionRef (close_session_v1 st) = None"
  "sessionRef (close_session_v2 st) = None"
  "streamRef (close_session_v1 st) = streamRef st"
  "streamRef (close_session_v2 st) = streamRef st"
  "inputAudioCtxRef (close_session_v1 st) = inputAudioCtxRef st"
  "inputAudioCtxRef (close_session_v2 st) = inputAudioCtxRef st"
  "outputAudioCtxRef (close_session_v1 st) = outputAudioCtxRef st"
  "outputAudioCtxRef (close_session_v2 st) = outputAudioCtxRef st"
  "sourcesRef (close_session_v1 st) = sourcesRef st"
  "sourcesRef (close_session_v2 st) = sourcesRef st"
  "isActive (close_session_v1 st) = isActive st"
  "isActive (close_session_v2 st) = isActive st"
  "isMayaSpeaking (close_session_v2 st) = isMayaSpeaking st"
  by (simp_all add: close_session_v1_def close_session_v2_def split: option.splits)

lemma stop_stream_fields [simp]:
  "sessionRef (stop_stream st) = sessionRef st"
  "streamRef (stop_stream st) = None"
  "inputAudioCtxRef (stop_stream st) = inputAudioCtxRef st"
  "outputAudioCtxRef (stop_stream st) = outputAudioCtxRef st"
  "sourcesRef (stop_stream st) = sourcesRef st"
  "isActive (stop_stream st) = isActive st"
  "isMayaSpeaking (stop_stream st) = isMayaSpeaking st"
  by (simp_all add: stop_stream_def split: option.splits)

lemma clear_sources_fields [simp]:
  "sessionRef (clear_sources st) = sessionRef st"
  "streamRef (clear_sources st) = streamRef st"
  "inputAudioCtxRef (clear_sources st) = inputAudioCtxRef st"
  "outputAudioCtxRef (clear_sources st) = outputAudioCtxRef st"
  "sourcesRef (clear_sources st) = []"
  "nextStartTimeRef (clear_sources st) = 0"
  "messages (clear_sources st) = messages st"
  "currentInputTranscription (clear_sources st) = currentInputTranscription st"
  "currentOutputTranscription (clear_sources st) = currentOutputTranscription st"
  "effects (clear_sources st) = effects st @ stop_sources (sourcesRef st)"
  "isActive (clear_sources st) = isActive st"
  "isMayaSpeaking (clear_sources st) = isMayaSpeaking st"
  by (simp_all add: clear_sources_def emit_def)

section \<open>The bounded message list\<close>

lemma js_slice_50: "js_slice (- 50) xs = drop (length xs - 50) xs"
proof -
  have "nat (max (int (length xs) + - 50) 0) = length xs - 50" by simp
  then show ?thesis by (simp add: js_slice_def Let_def)
qed

lemma last_n_absorb:
  "drop (length (drop (length xs - n) xs @ ys) - n) (drop (length xs - n) xs @ ys)
   = drop (length (xs @ ys) - n) (xs @ ys)"
  by (cases "length xs \<le> n") (auto simp: add.commute)

lemma messages_addMessage_v2:
  "messages (addMessage_v2 r t img st) =
     drop (Suc (length (messages st)) - 50)
       (messages st @ [\<lparr>msg_role = r, msg_text = t, imageUrl = img\<rparr>])"
  by (simp add: addMessage_v2_def setMessages_v2_def js_slice_50 Let_def)

lemma localStorage_addMessage_v2:
  "localStorage (addMessage_v2 r t img st) = Some (messages (addMessage_v2 r t img st))"
  by (simp add: addMessage_v2_def setMessages_v2_def Let_def)

lemma messages_addMessages_v2:
  "ms \<noteq> [] \<Longrightarrow> messages (addMessages_v2 ms st) =
      drop (length (messages st @ ms) - 50) (messages st @ ms)"
proof (induction ms arbitrary: st)
  case Nil
  then show ?case by simp
next
  case (Cons m ms)
  let ?st = "addMessage_v2 (msg_role m) (msg_text m) (imageUrl m) st"
  have one: "messages ?st = drop (length (messages st @ [m]) - 50) (messages st @ [m])"
    by (simp add: messages_addMessage_v2)
  show ?case
  proof (cases "ms = []")
    case True
    with one show ?thesis by simp
  next
    case False
    then have "messages (addMessages_v2 ms ?st) =
        drop (length (messages ?st @ ms) - 50) (messages ?st @ ms)"
      by (rule Cons.IH)
    also have "\<dots> = drop (length ((messages st @ [m]) @ ms) - 50) ((messages st @ [m]) @ ms)"
      unfolding one by (rule last_n_absorb)
    finally show ?thesis by simp
  qed
qed

lemma localStorage_addMessages_v2:
  "ms \<noteq> [] \<Longrightarrow> localStorage (addMessages_v2 ms st) = Some (messages (addMessages_v2 ms st))"
proof (induction ms arbitrary: st)
  case Nil
  then show ?case by simp
next
  case (Cons m ms)
  then show ?case
    by (cases "ms = []") (simp_all add: localStorage_addMessage_v2)
qed

text \<open>
  Claim C9. In the later revision \<open>addMessage\<close> stores the last 50 elements of the
  previous list followed by the new Message: the order is kept, the oldest are
  dropped first, the new Message is last, the length is at most 50, and the same
  list is what is written to \<open>localStorage\<close>. After any non-empty run of
  \<open>addMessage\<close> calls the stored list is the last 50 of everything appended.
\<close>

theorem addMessage_v2_keeps_last_50:
  "messages (addMessage_v2 r t img st) =
     drop (Suc (length (messages st)) - 50)
       (messages st @ [\<lparr>msg_role = r, msg_text = t, imageUrl = img\<rparr>])
   \<and> length (messages (addMessage_v2 r t img st)) = min 50 (Suc (length (messages st)))
   \<and> last (messages (addMessage_v2 r t img st)) = \<lparr>msg_role = r, msg_text = t, imageUrl = img\<rparr>
   \<and> localStorage (addMessage_v2 r t img st) = Some (messages (addMessage_v2 r t img st))
   \<and> (ms \<noteq> [] \<longrightarrow>
        messages (addMessages_v2 ms st) = drop (length (messages st @ ms) - 50) (messages st @ ms)
        \<and> localStorage (addMessages_v2 ms st) = Some (messages (addMessages_v2 ms st))
        \<and> length (messages (addMessages_v2 ms st)) \<le> 50)"
proof -
  have "length (messages (addMessage_v2 r t img st)) = min 50 (Suc (length (messages st)))"
    by (simp add: messages_addMessage_v2)
  moreover have "last (messages (addMessage_v2 r t img st)) =
      \<lparr>msg_role = r, msg_text = t, imageUrl = img\<rparr>"
    by (simp add: messages_addMessage_v2)
  moreover have "ms \<noteq> [] \<longrightarrow> length (messages (addMessages_v2 ms st)) \<le> 50"
    by (auto simp: messages_addMessages_v2)
  ultimately show ?thesis
    by (simp add: messages_addMessage_v2 localStorage_addMessage_v2
        messages_addMessages_v2 localStorage_addMessages_v2)
qed

theorem addMessage_v2_keeps_last_50_witness:
  "[\<lparr>msg_role = Maya, msg_text = ''new'', imageUrl = None\<rparr>] \<noteq> []
   \<and> messages (addMessages_v2 [\<lparr>msg_role = Maya, msg_text = ''new'', imageUrl = None\<rparr>]
        (initial_app\<lparr>messages :=
           replicate 50 \<lparr>msg_role = User, msg_text = ''old'', imageUrl = None\<rparr>\<rparr>))
     = replicate 49 \<lparr>msg_role = User, msg_text = ''old'', imageUrl = None\<rparr>
         @ [\<lparr>msg_role = Maya, msg_text = ''new'', imageUrl = None\<rparr>]
   \<and> length (messages (addMessages_v2 [\<lparr>msg_role = Maya, msg_text = ''new'', imageUrl = None\<rparr>]
        (initial_app\<lparr>messages :=
           replicate 50 \<lparr>msg_role = User, msg_text = ''old'', imageUrl = None\<rparr>\<rparr>))) \<le> 50"
  using addMessage_v2_keeps_last_50 [of Maya "''new''" None
      "initial_app\<lparr>messages :=
           replicate 50 \<lparr>msg_role = User, msg_text = ''old'', imageUrl = None\<rparr>\<rparr>"
      "[\<lparr>msg_role = Maya, msg_text = ''new'', imageUrl = None\<rparr>]"]
  by simp

section \<open>Teardown\<close>

lemma torn_down_stopSession_v1: "torn_down (stopSession_v1 st)"
  by (simp add: stopSession_v1_def torn_down_def Let_def)

lemma stopSession_v1_torn_down:
  "torn_down st \<Longrightarrow> stopSession_v1 st = st\<lparr>isActive := False\<rparr>"
  by (simp add: stopSession_v1_def torn_down_def Let_def close_session_v1_def stop_stream_def
      close_ctx_v1_def clear_sources_def)

lemma isActive_stopSession_v1: "isActive (stopSession_v1 st) = False"
  by (simp add: stopSession_v1_def Let_def)

lemma stopSession_v1_twice: "stopSession_v1 (stopSession_v1 st) = stopSession_v1 st"
proof -
  have "stopSession_v1 (stopSession_v1 st) = (stopSession_v1 st)\<lparr>isActive := False\<rparr>"
    by (rule stopSession_v1_torn_down [OF torn_down_stopSession_v1])
  also have "\<dots> = stopSession_v1 st"
    using isActive_stopSession_v1 [of st] by simp
  finally show ?thesis .
qed

text \<open>
  The later revision, when nothing else runs while a call waits and no \<open>close\<close>
  of a context is pending as it begins: the call returns normally and leaves
  nothing behind, and a call made after it has returned changes nothing.
\<close>

lemma finish_stop_v2_run:
  "stopSession_v2_run (finish_stop_v2 st) = Inr (clear_sources st)"
  by (simp add: finish_stop_v2_def)

lemma close_output_v2_run:
  assumes "\<not> close_pending (outputAudioCtxRef st)"
  shows "\<exists>st'. stopSession_v2_run (close_output_v2 st) = Inr st'
           \<and> outputAudioCtxRef st' = None \<and> sourcesRef st' = [] \<and> nextStartTimeRef st' = 0
           \<and> inputAudioCtxRef st' = inputAudioCtxRef st \<and> sessionRef st' = sessionRef st
           \<and> streamRef st' = streamRef st \<and> isActive st' = isActive st
           \<and> isMayaSpeaking st' = isMayaSpeaking st"
proof (cases "outputAudioCtxRef st")
  case None
  then show ?thesis by (simp add: close_output_v2_def finish_stop_v2_run)
next
  case (Some c)
  with assms show ?thesis
    by (cases "ctx_state c = Closed")
      (simp_all add: close_output_v2_def close_pending_def ctx_close_def
        stopSession_v2_resume_def finish_stop_v2_run)
qed

lemma close_input_v2_run:
  assumes "\<not> close_pending (inputAudioCtxRef st)" "\<not> close_pending (outputAudioCtxRef st)"
  shows "\<exists>st'. stopSession_v2_run (close_input_v2 st) = Inr st'
           \<and> inputAudioCtxRef st' = None \<and> outputAudioCtxRef st' = None
           \<and> sourcesRef st' = [] \<and> nextStartTimeRef st' = 0 \<and> sessionRef st' = sessionRef st
           \<and> streamRef st' = streamRef st \<and> isActive st' = isActive st
           \<and> isMayaSpeaking st' = isMayaSpeaking st"
proof -
  have out: "\<exists>st'. stopSession_v2_run (close_output_v2 ((emit es st)\<lparr>inputAudioCtxRef := None\<rparr>))
        = Inr st'
      \<and> inputAudioCtxRef st' = None \<and> outputAudioCtxRef st' = None
      \<and> sourcesRef st' = [] \<and> nextStartTimeRef st' = 0 \<and> sessionRef st' = sessionRef st
      \<and> streamRef st' = streamRef st \<and> isActive st' = isActive st
      \<and> isMayaSpeaking st' = isMayaSpeaking st" for es
    using close_output_v2_run [of "(emit es st)\<lparr>inputAudioCtxRef := None\<rparr>"] assms(2) by auto
  show ?thesis
  proof (cases "inputAudioCtxRef st")
    case None
    with close_output_v2_run [OF assms(2)] show ?thesis
      by (auto simp add: close_input_v2_def)
  next
    case (Some c)
    show ?thesis
    proof (cases "ctx_state c = Closed")
      case True
      with out [of "[]"] Some show ?thesis by (auto simp add: close_input_v2_def)
    next
      case False
      with out [of "[CtxClose (ctx_id c)]"] Some assms(1) show ?thesis
        by (auto simp add: close_input_v2_def close_pending_def ctx_close_def
            stopSession_v2_resume_def)
    qed
  qed
qed

lemma stopSession_v2_Inr:
  assumes "\<not> close_pending (inputAudioCtxRef st)" "\<not> close_pending (outputAudioCtxRef st)"
  shows "\<exists>st'. stopSession_v2 st = Inr st' \<and> torn_down st' \<and> \<not> isActive st'
           \<and> \<not> isMayaSpeaking st'"
proof -
  have a: "\<exists>st'. stopSession_v2_run (close_input_v2 (stop_stream s)) = Inr st'
      \<and> torn_down st' \<and> \<not> isActive st' \<and> \<not> isMayaSpeaking st'"
    if "sessionRef s = None" "\<not> isActive s" "\<not> isMayaSpeaking s"
      "inputAudioCtxRef s = inputAudioCtxRef st" "outputAudioCtxRef s = outputAudioCtxRef st" for s
    using close_input_v2_run [of "stop_stream s"] assms that by (auto simp add: torn_down_def)
  let ?st1 = "st\<lparr>isActive := False, isMayaSpeaking := False\<rparr>"
  show ?thesis
  proof (cases "sessionRef st")
    case None
    with a [of ?st1] show ?thesis
      by (simp add: stopSession_v2_def stopSession_v2_begin_def Let_def)
  next
    case (Some s)
    show ?thesis
    proof (cases "session_close s")
      case (Inl e)
      with Some a [of "close_session_v2 ?st1"] show ?thesis
        by (simp add: stopSession_v2_def stopSession_v2_begin_def Let_def)
    next
      case (Inr ef)
      with Some a [of "(emit [ef] ?st1)\<lparr>sessionRef := None\<rparr>"] show ?thesis
        by (simp add: stopSession_v2_def stopSession_v2_begin_def Let_def
            stopSession_v2_resume_def)
    qed
  qed
qed

lemma stopSession_v2_torn_down:
  "torn_down st \<Longrightarrow> stopSession_v2 st = Inr (st\<lparr>isActive := False, isMayaSpeaking := False\<rparr>)"
  by (simp add: stopSession_v2_def stopSession_v2_begin_def torn_down_def Let_def
      stop_stream_def close_input_v2_def close_output_v2_def finish_stop_v2_def clear_sources_def)

lemma stopSession_v2_twice:
  assumes "\<not> close_pending (inputAudioCtxRef st)" "\<not> close_pending (outputAudioCtxRef st)"
  shows "\<exists>st'. stopSession_v2 st = Inr st' \<and> torn_down st' \<and> stopSession_v2 st' = Inr st'"
proof -
  obtain st' where a: "stopSession_v2 st = Inr st'" "torn_down st'" "\<not> isActive st'"
    "\<not> isMayaSpeaking st'"
    using stopSession_v2_Inr [OF assms] by blast
  then have "stopSession_v2 st' = Inr st'"
    by (simp add: stopSession_v2_torn_down)
  with a show ?thesis by blast
qed

lemma stopSession_v2_example:
  "stopSession_v2 example_active =
     Inr (initial_app\<lparr>effects := [CtxCreate 1 16000, CtxCreate 2 24000, GetUserMedia [3], Connect 4,
             SessionClose 4, TrackStop 3, CtxClose 1, CtxClose 2]\<rparr>)"
  by (simp add: stopSession_v2_def stopSession_v2_begin_def stopSession_v2_resume_def
      example_active_def initial_app_def Let_def close_input_v2_def close_output_v2_def
      finish_stop_v2_def session_close_def stop_stream_def ctx_close_def clear_sources_def emit_def)

lemma stopSession_v1_example:
  "stopSession_v1 example_active =
     initial_app\<lparr>effects := [CtxCreate 1 16000, CtxCreate 2 24000, GetUserMedia [3], Connect 4,
             SessionClose 4, TrackStop 3, CtxClose 1, CtxClose 2]\<rparr>"
  by (simp add: stopSession_v1_def example_active_def initial_app_def Let_def
      close_session_v1_def session_close_def stop_stream_def close_ctx_v1_def ctx_close_def
      clear_sources_def emit_def)

lemma new_effects_same [simp]: "new_effects st st = []"
  by (simp add: new_effects_def)

text \<open>
  Claim C1. The earlier revision does what the claim says: its teardown is one
  synchronous run that clears each reference before it closes what the reference
  held and catches every failure, so a second call finds nothing to do
  (\<open>torn_down_stopSession_v1\<close>, \<open>stopSession_v1_twice\<close>). The later revision does
  not. Its teardown clears the session reference only after the awaited \<open>close\<close>
  and each context reference only after the awaited \<open>close\<close> of the context, and
  it does not catch a rejection of the latter. Take the session in progress and
  two calls, neither awaited. When the second is made right after the first,
  each call finds the session reference set and closes session 4; the first call
  goes on, stops the track and calls \<open>close\<close> on the input context; the second
  call, going on after it, finds the input context still in its reference and
  not yet reading \<open>closed\<close>, calls \<open>close\<close> on it again and ends there with
  \<open>InvalidStateError\<close>, while both context references are still set. The first
  call then runs to its end. When the second call is made later, while the first
  waits for the input context to close, it fails on that context in the same
  way. On the same input the earlier revision closes the session once and
  nothing fails.
\<close>

theorem stopSession_v2_overlapping_calls_fail:
  "\<exists>a1 b1 a2 b2 st' c1 c2 d.
     stopSession_v2_begin example_active = Waiting AwaitSessionClose a1
   \<and> stopSession_v2_begin a1 = Waiting AwaitSessionClose b1
   \<and> stopSession_v2_resume AwaitSessionClose b1 = Waiting AwaitInputClose a2
   \<and> stopSession_v2_resume AwaitSessionClose a2 = Failed InvalidStateError b2
   \<and> new_effects example_active b2 = [SessionClose 4, SessionClose 4, TrackStop 3, CtxClose 1]
   \<and> inputAudioCtxRef b2 \<noteq> None \<and> outputAudioCtxRef b2 \<noteq> None
   \<and> stopSession_v2_run (Waiting AwaitInputClose b2) = Inr st' \<and> torn_down st'
   \<and> new_effects example_active st'
        = [SessionClose 4, SessionClose 4, TrackStop 3, CtxClose 1, CtxClose 2]
   \<and> stopSession_v2_begin example_active = Waiting AwaitSessionClose c1
   \<and> stopSession_v2_resume AwaitSessionClose c1 = Waiting AwaitInputClose c2
   \<and> stopSession_v2_begin c2 = Failed InvalidStateError d
   \<and> inputAudioCtxRef d \<noteq> None \<and> outputAudioCtxRef d \<noteq> None
   \<and> new_effects example_active (stopSession_v1 (stopSession_v1 example_active))
        = [SessionClose 4, TrackStop 3, CtxClose 1, CtxClose 2]
   \<and> torn_down (stopSession_v1 (stopSession_v1 example_active))"
  by (simp add: stopSession_v2_begin_def stopSession_v2_resume_def
      example_active_def initial_app_def Let_def close_input_v2_def close_output_v2_def
      finish_stop_v2_def session_close_def stop_stream_def ctx_close_def clear_sources_def emit_def
      new_effects_def torn_down_def stopSession_v1_def close_session_v1_def close_ctx_v1_def)

section \<open>Sums of Numbers\<close>


lemma round_even_of_int [simp]: "round_even (of_int n) = n"
  by (simp add: round_even_def Let_def)

lemma round_even_numeral [simp]: "round_even (numeral n) = numeral n"
  using round_even_of_int [of "numeral n"] by simp














lemma time_0 [simp]: "time 0"
  by (simp add: time_def fl_def)








section \<open>The playback schedule\<close>

lemma schedule_append: "schedule (xs @ ys) = schedule xs @ schedule ys"
  by (induction xs rule: schedule.induct) simp_all





lemma scheduleChunk_fields [simp]:
  "effects (scheduleChunk dur now b st) =
     effects st @ [SourceStart (max (nextStartTimeRef st) now) (dur b)]"
  "nextStartTimeRef (scheduleChunk dur now b st) = js_add (max (nextStartTimeRef st) now) (dur b)"
  "sourcesRef (scheduleChunk dur now b st) =
     sourcesRef st @ [\<lparr>start_at = max (nextStartTimeRef st) now, duration = dur b, started = True\<rparr>]"
  "messages (scheduleChunk dur now b st) = messages st"
  "currentInputTranscription (scheduleChunk dur now b st) = currentInputTranscription st"
  "currentOutputTranscription (scheduleChunk dur now b st) = currentOutputTranscription st"
  "outputAudioCtxRef (scheduleChunk dur now b st) = outputAudioCtxRef st"
  by (simp_all add: scheduleChunk_def Let_def)


lemma resume_output_fields [simp]:
  "nextStartTimeRef (resume_output st) = nextStartTimeRef st"
  "sourcesRef (resume_output st) = sourcesRef st"
  "messages (resume_output st) = messages st"
  "currentInputTranscription (resume_output st) = currentInputTranscription st"
  "currentOutputTranscription (resume_output st) = currentOutputTranscription st"
  "schedule (effects (resume_output st)) = schedule (effects st)"
  "(outputAudioCtxRef (resume_output st) = None) = (outputAudioCtxRef st = None)"
  by (simp_all add: resume_output_def schedule_append split: option.splits)




lemma append_transcriptions_fields [simp]:
  "effects (append_transcriptions m st) = effects st"
  "nextStartTimeRef (append_transcriptions m st) = nextStartTimeRef st"
  "messages (append_transcriptions m st) = messages st"
  "sourcesRef (append_transcriptions m st) = sourcesRef st"
  "outputAudioCtxRef (append_transcriptions m st) = outputAudioCtxRef st"
  by (simp_all add: append_transcriptions_def Let_def split: option.splits)

lemma flush_turn_fields [simp]:
  "effects (flush_turn st) = effects st"
  "nextStartTimeRef (flush_turn st) = nextStartTimeRef st"
  "sourcesRef (flush_turn st) = sourcesRef st"
  "outputAudioCtxRef (flush_turn st) = outputAudioCtxRef st"
  "currentInputTranscription (flush_turn st) = []"
  "currentOutputTranscription (flush_turn st) = []"
  by (simp_all add: flush_turn_def Let_def addMessage_v1_def)






lemma stop_sources_filter:
  "stop_sources ss = map (\<lambda>s. SourceStop (start_at s) (duration s)) (filter started ss)"
  by (induction ss) (simp_all add: source_stop_def)

lemma play_part_v1_fields [simp]:
  "messages (play_part_v1 dur now p st) = messages st"
  "currentInputTranscription (play_part_v1 dur now p st) = currentInputTranscription st"
  "currentOutputTranscription (play_part_v1 dur now p st) = currentOutputTranscription st"
  "(outputAudioCtxRef (play_part_v1 dur now p st) = None) = (outputAudioCtxRef st = None)"
  by (simp_all add: play_part_v1_def split: option.splits)

lemma play_parts_v1_fields [simp]:
  "messages (play_parts_v1 dur clock i ps st) = messages st"
  "currentInputTranscription (play_parts_v1 dur clock i ps st) = currentInputTranscription st"
  "currentOutputTranscription (play_parts_v1 dur clock i ps st) = currentOutputTranscription st"
  "(outputAudioCtxRef (play_parts_v1 dur clock i ps st) = None) = (outputAudioCtxRef st = None)"
  by (induction ps arbitrary: st i) simp_all

lemma onmessage_v2_audio:
  "b \<noteq> [] \<Longrightarrow> onmessage_v2 dur clock (audio_message b) st
     = scheduleChunk dur (clock 0) b (st\<lparr>isMayaSpeaking := True\<rparr>)"
  by (simp add: onmessage_v2_def play_first_v2_def audio_message_def)

lemma onmessage_v1_audio:
  "b \<noteq> [] \<Longrightarrow> outputAudioCtxRef st \<noteq> None \<Longrightarrow>
     onmessage_v1 dur clock (audio_message b) st = scheduleChunk dur (clock 0) b (resume_output st)"
  by (simp add: onmessage_v1_def play_part_v1_def audio_message_def append_transcriptions_def)

lemma resume_output_effects:
  "\<exists>es. effects (resume_output st) = effects st @ es \<and> schedule es = []"
  by (simp add: resume_output_def split: option.splits)

lemma onmessage_v2_audio_schedule:
  assumes "b \<noteq> []"
  shows "schedule (new_effects st (onmessage_v2 dur clock (audio_message b) st))
          = [(max (nextStartTimeRef st) (clock 0), dur b)]"
    and "nextStartTimeRef (onmessage_v2 dur clock (audio_message b) st)
          = js_add (max (nextStartTimeRef st) (clock 0)) (dur b)"
  using assms by (simp_all add: onmessage_v2_audio new_effects_def)

lemma onmessage_v1_audio_schedule:
  assumes "b \<noteq> []" "outputAudioCtxRef st \<noteq> None"
  shows "schedule (new_effects st (onmessage_v1 dur clock (audio_message b) st))
          = [(max (nextStartTimeRef st) (clock 0), dur b)]"
    and "nextStartTimeRef (onmessage_v1 dur clock (audio_message b) st)
          = js_add (max (nextStartTimeRef st) (clock 0)) (dur b)"
proof -
  obtain es where es: "effects (resume_output st) = effects st @ es" "schedule es = []"
    using resume_output_effects by blast
  with assms show "schedule (new_effects st (onmessage_v1 dur clock (audio_message b) st))
          = [(max (nextStartTimeRef st) (clock 0), dur b)]"
    by (simp add: onmessage_v1_audio new_effects_def schedule_append)
  from assms show "nextStartTimeRef (onmessage_v1 dur clock (audio_message b) st)
          = js_add (max (nextStartTimeRef st) (clock 0)) (dur b)"
    by (simp add: onmessage_v1_audio)
qed



lemma example_active_fields [simp]:
  "nextStartTimeRef example_active = 0"
  "outputAudioCtxRef example_active \<noteq> None"
  "sourcesRef example_active = []"
  by (simp_all add: example_active_def initial_app_def)


text \<open>
  The later revision reads the first part of a message only: of two audio parts
  in one message it schedules the first and drops the second, where the earlier
  revision schedules both.
\<close>

lemma onmessage_v2_first_part_only:
  assumes "a \<noteq> []" "b \<noteq> []" "outputAudioCtxRef st \<noteq> None"
  shows "schedule (new_effects st (onmessage_v2 dur clock
            \<lparr>inputTranscription = None, outputTranscription = None, turnComplete = False,
             parts = [Some a, Some b], interrupted = False\<rparr> st))
          = [(max (nextStartTimeRef st) (clock 0), dur a)]"
    and "schedule (new_effects st (onmessage_v1 dur clock
            \<lparr>inputTranscription = None, outputTranscription = None, turnComplete = False,
             parts = [Some a, Some b], interrupted = False\<rparr> st))
          = [(max (nextStartTimeRef st) (clock 0), dur a),
             (max (js_add (max (nextStartTimeRef st) (clock 0)) (dur a)) (clock 1), dur b)]"
proof -
  show "schedule (new_effects st (onmessage_v2 dur clock
            \<lparr>inputTranscription = None, outputTranscription = None, turnComplete = False,
             parts = [Some a, Some b], interrupted = False\<rparr> st))
          = [(max (nextStartTimeRef st) (clock 0), dur a)]"
    using assms by (simp add: onmessage_v2_def play_first_v2_def new_effects_def)
  let ?st1 = "scheduleChunk dur (clock 0) a (resume_output st)"
  obtain es where es: "effects (resume_output st) = effects st @ es" "schedule es = []"
    using resume_output_effects by blast
  obtain es' where es': "effects (resume_output ?st1) = effects ?st1 @ es'" "schedule es' = []"
    using resume_output_effects by blast
  have "outputAudioCtxRef ?st1 \<noteq> None" using assms(3) by simp
  with assms es es' show "schedule (new_effects st (onmessage_v1 dur clock
            \<lparr>inputTranscription = None, outputTranscription = None, turnComplete = False,
             parts = [Some a, Some b], interrupted = False\<rparr> st))
          = [(max (nextStartTimeRef st) (clock 0), dur a),
             (max (js_add (max (nextStartTimeRef st) (clock 0)) (dur a)) (clock 1), dur b)]"
    by (simp add: onmessage_v1_def play_part_v1_def append_transcriptions_def new_effects_def
        schedule_append)
qed




lemma onmessage_interrupted_fields:
  assumes "interrupted m"
  shows "sourcesRef (onmessage_v1 dur clock m st) = []"
    and "nextStartTimeRef (onmessage_v1 dur clock m st) = 0"
    and "sourcesRef (onmessage_v2 dur clock m st) = []"
    and "nextStartTimeRef (onmessage_v2 dur clock m st) = 0"
    and "(outputAudioCtxRef (onmessage_v1 dur clock m st) = None) = (outputAudioCtxRef st = None)"
  using assms by (simp_all add: onmessage_v1_def onmessage_v2_def Let_def)

lemma onmessage_interrupted_effects:
  assumes "interrupted m" "parts m = []"
  shows "new_effects st (onmessage_v1 dur clock m st) = stop_sources (sourcesRef st)"
    and "new_effects st (onmessage_v2 dur clock m st) = stop_sources (sourcesRef st)"
  using assms
  by (simp_all add: onmessage_v1_def onmessage_v2_def Let_def new_effects_def play_first_v2_def)

text \<open>
  Claim C3. A message with the interruption flag leaves no playback source in the
  set and the cursor at 0, in both revisions. When it carries no audio, what it
  does to the world is exactly one \<open>stop\<close> for every source of the set on which
  \<open>stop\<close> does not throw, in order; a throwing \<open>stop\<close> is swallowed. The next
  audio payload is then scheduled at the maximum of 0 and the clock value, which
  is the clock value itself as the clock is never negative, whatever the cursor was before
  the interruption.
\<close>

theorem interruption_resets_player:
  assumes "interrupted m"
  shows "sourcesRef (onmessage_v1 dur clock m st) = []
   \<and> nextStartTimeRef (onmessage_v1 dur clock m st) = 0
   \<and> sourcesRef (onmessage_v2 dur clock m st) = []
   \<and> nextStartTimeRef (onmessage_v2 dur clock m st) = 0
   \<and> (parts m = [] \<longrightarrow>
        new_effects st (onmessage_v1 dur clock m st)
          = map (\<lambda>s. SourceStop (start_at s) (duration s)) (filter started (sourcesRef st))
        \<and> new_effects st (onmessage_v2 dur clock m st)
          = map (\<lambda>s. SourceStop (start_at s) (duration s)) (filter started (sourcesRef st)))
   \<and> (b \<noteq> [] \<longrightarrow>
        schedule (new_effects (onmessage_v2 dur clock m st)
           (onmessage_v2 dur clock' (audio_message b) (onmessage_v2 dur clock m st)))
          = [(max 0 (clock' 0), dur b)])
   \<and> (b \<noteq> [] \<and> outputAudioCtxRef st \<noteq> None \<longrightarrow>
        schedule (new_effects (onmessage_v1 dur clock m st)
           (onmessage_v1 dur clock' (audio_message b) (onmessage_v1 dur clock m st)))
          = [(max 0 (clock' 0), dur b)])
   \<and> (b \<noteq> [] \<and> 0 \<le> clock' 0 \<longrightarrow>
        schedule (new_effects (onmessage_v2 dur clock m st)
           (onmessage_v2 dur clock' (audio_message b) (onmessage_v2 dur clock m st)))
          = [(clock' 0, dur b)])
   \<and> (b \<noteq> [] \<and> 0 \<le> clock' 0 \<and> outputAudioCtxRef st \<noteq> None \<longrightarrow>
        schedule (new_effects (onmessage_v1 dur clock m st)
           (onmessage_v1 dur clock' (audio_message b) (onmessage_v1 dur clock m st)))
          = [(clock' 0, dur b)])"
proof -
  note f = onmessage_interrupted_fields [OF assms, of dur clock st]
  have e: "parts m = [] \<longrightarrow>
        new_effects st (onmessage_v1 dur clock m st)
          = map (\<lambda>s. SourceStop (start_at s) (duration s)) (filter started (sourcesRef st))
        \<and> new_effects st (onmessage_v2 dur clock m st)
          = map (\<lambda>s. SourceStop (start_at s) (duration s)) (filter started (sourcesRef st))"
    using assms by (simp add: onmessage_interrupted_effects stop_sources_filter)
  have n2: "b \<noteq> [] \<longrightarrow>
        schedule (new_effects (onmessage_v2 dur clock m st)
           (onmessage_v2 dur clock' (audio_message b) (onmessage_v2 dur clock m st)))
          = [(max 0 (clock' 0), dur b)]"
    by (simp add: onmessage_v2_audio_schedule f)
  have n1: "b \<noteq> [] \<and> outputAudioCtxRef st \<noteq> None \<longrightarrow>
        schedule (new_effects (onmessage_v1 dur clock m st)
           (onmessage_v1 dur clock' (audio_message b) (onmessage_v1 dur clock m st)))
          = [(max 0 (clock' 0), dur b)]"
    by (simp add: onmessage_v1_audio_schedule f)
  from f e n1 n2 show ?thesis by (simp add: max_absorb2)
qed

theorem interruption_resets_player_witness:
  "interrupted \<lparr>inputTranscription = None, outputTranscription = None, turnComplete = False,
      parts = [], interrupted = True\<rparr>
   \<and> new_effects
        (initial_app\<lparr>nextStartTimeRef := 7,
           sourcesRef := [\<lparr>start_at = 5, duration = 1, started = True\<rparr>,
                          \<lparr>start_at = 6, duration = 1, started = True\<rparr>]\<rparr>)
        (onmessage_v2 (\<lambda>b. real (length b) / 4) (\<lambda>i. 5)
           \<lparr>inputTranscription = None, outputTranscription = None, turnComplete = False,
            parts = [], interrupted = True\<rparr>
           (initial_app\<lparr>nextStartTimeRef := 7,
              sourcesRef := [\<lparr>start_at = 5, duration = 1, started = True\<rparr>,
                             \<lparr>start_at = 6, duration = 1, started = True\<rparr>]\<rparr>))
      = [SourceStop 5 1, SourceStop 6 1]
   \<and> ''ab'' \<noteq> [] \<and> (0 :: real) \<le> 11 / 2
   \<and> schedule (new_effects
        (onmessage_v2 (\<lambda>b. real (length b) / 4) (\<lambda>i. 5)
           \<lparr>inputTranscription = None, outputTranscription = None, turnComplete = False,
            parts = [], interrupted = True\<rparr>
           (initial_app\<lparr>nextStartTimeRef := 7,
              sourcesRef := [\<lparr>start_at = 5, duration = 1, started = True\<rparr>,
                             \<lparr>start_at = 6, duration = 1, started = True\<rparr>]\<rparr>))
        (onmessage_v2 (\<lambda>b. real (length b) / 4) (\<lambda>i. 11 / 2) (audio_message ''ab'')
           (onmessage_v2 (\<lambda>b. real (length b) / 4) (\<lambda>i. 5)
              \<lparr>inputTranscription = None, outputTranscription = None, turnComplete = False,
               parts = [], interrupted = True\<rparr>
              (initial_app\<lparr>nextStartTimeRef := 7,
                 sourcesRef := [\<lparr>start_at = 5, duration = 1, started = True\<rparr>,
                                \<lparr>start_at = 6, duration = 1, started = True\<rparr>]\<rparr>))))
      = [(11 / 2, 1 / 2)]"
proof -
  have i: "interrupted \<lparr>inputTranscription = None, outputTranscription = None,
      turnComplete = False, parts = [], interrupted = True\<rparr>"
    by simp
  show ?thesis
    using interruption_resets_player [OF i, of "\<lambda>b. real (length b) / 4" "\<lambda>i. 5"
        "initial_app\<lparr>nextStartTimeRef := 7,
           sourcesRef := [\<lparr>start_at = 5, duration = 1, started = True\<rparr>,
                          \<lparr>start_at = 6, duration = 1, started = True\<rparr>]\<rparr>"
        "''ab''" "\<lambda>i. 11 / 2"]
    by simp
qed

lemma messages_onmessage_v1:
  "messages (onmessage_v1 dur clock m st) =
     messages (if turnComplete m then flush_turn (append_transcriptions m st)
               else append_transcriptions m st)"
  "currentInputTranscription (onmessage_v1 dur clock m st) =
     currentInputTranscription (if turnComplete m then flush_turn (append_transcriptions m st)
               else append_transcriptions m st)"
  "currentOutputTranscription (onmessage_v1 dur clock m st) =
     currentOutputTranscription (if turnComplete m then flush_turn (append_transcriptions m st)
               else append_transcriptions m st)"
  by (simp_all add: onmessage_v1_def Let_def)

lemma messages_flush_turn:
  "messages (flush_turn st) = messages st
     @ (if currentInputTranscription st \<noteq> []
        then [\<lparr>msg_role = User, msg_text = currentInputTranscription st, imageUrl = None\<rparr>]
        else [])
     @ (if currentOutputTranscription st \<noteq> []
        then [\<lparr>msg_role = Maya, msg_text = currentOutputTranscription st, imageUrl = None\<rparr>]
        else [])"
  by (simp add: flush_turn_def Let_def addMessage_v1_def)

lemma append_transcriptions_none:
  "inputTranscription m = None \<Longrightarrow> outputTranscription m = None \<Longrightarrow>
     append_transcriptions m st = st"
  by (simp add: append_transcriptions_def)

text \<open>
  Claim C5. In the earlier revision, the only one with transcript buffers, a
  message with the turn-complete flag appends to the Message list a user Message
  with the input buffer if that is not empty, then an assistant Message with the
  output buffer if that is not empty, and empties both buffers; the buffers are
  read after the fragments the same message carries have been appended to them.
  So a bare turn-complete with both buffers non-empty appends exactly those two
  Messages, one with both buffers empty appends none, and a bare turn-complete
  that follows another appends nothing more.
\<close>

theorem turnComplete_flushes_buffers:
  assumes "turnComplete m"
  shows "messages (onmessage_v1 dur clock m st) = messages st
       @ (if currentInputTranscription (append_transcriptions m st) \<noteq> []
          then [\<lparr>msg_role = User,
                  msg_text = currentInputTranscription (append_transcriptions m st),
                  imageUrl = None\<rparr>]
          else [])
       @ (if currentOutputTranscription (append_transcriptions m st) \<noteq> []
          then [\<lparr>msg_role = Maya,
                  msg_text = currentOutputTranscription (append_transcriptions m st),
                  imageUrl = None\<rparr>]
          else [])
   \<and> currentInputTranscription (onmessage_v1 dur clock m st) = []
   \<and> currentOutputTranscription (onmessage_v1 dur clock m st) = []
   \<and> (inputTranscription m = None \<and> outputTranscription m = None
        \<and> currentInputTranscription st \<noteq> [] \<and> currentOutputTranscription st \<noteq> [] \<longrightarrow>
        messages (onmessage_v1 dur clock m st) = messages st
          @ [\<lparr>msg_role = User, msg_text = currentInputTranscription st, imageUrl = None\<rparr>,
             \<lparr>msg_role = Maya, msg_text = currentOutputTranscription st, imageUrl = None\<rparr>])
   \<and> (inputTranscription m = None \<and> outputTranscription m = None
        \<and> currentInputTranscription st = [] \<and> currentOutputTranscription st = [] \<longrightarrow>
        messages (onmessage_v1 dur clock m st) = messages st)
   \<and> (inputTranscription m = None \<and> outputTranscription m = None \<longrightarrow>
        messages (onmessage_v1 dur clock' m (onmessage_v1 dur clock m st))
          = messages (onmessage_v1 dur clock m st))"
  using assms
  by (simp add: messages_onmessage_v1 messages_flush_turn append_transcriptions_none)

theorem turnComplete_flushes_buffers_witness:
  "turnComplete \<lparr>inputTranscription = None, outputTranscription = None, turnComplete = True,
      parts = [], interrupted = False\<rparr>
   \<and> messages (onmessage_v1 (\<lambda>b. 0) (\<lambda>i. 0)
        \<lparr>inputTranscription = None, outputTranscription = None, turnComplete = True,
         parts = [], interrupted = False\<rparr>
        (initial_app\<lparr>currentInputTranscription := ''hi'',
           currentOutputTranscription := ''hello''\<rparr>))
     = [\<lparr>msg_role = User, msg_text = ''hi'', imageUrl = None\<rparr>,
        \<lparr>msg_role = Maya, msg_text = ''hello'', imageUrl = None\<rparr>]
   \<and> messages (onmessage_v1 (\<lambda>b. 0) (\<lambda>i. 0)
        \<lparr>inputTranscription = None, outputTranscription = None, turnComplete = True,
         parts = [], interrupted = False\<rparr> initial_app) = []
   \<and> currentInputTranscription (onmessage_v1 (\<lambda>b. 0) (\<lambda>i. 0)
        \<lparr>inputTranscription = None, outputTranscription = None, turnComplete = True,
         parts = [], interrupted = False\<rparr>
        (initial_app\<lparr>currentInputTranscription := ''hi'',
           currentOutputTranscription := ''hello''\<rparr>)) = []"
proof -
  have t: "turnComplete \<lparr>inputTranscription = None, outputTranscription = None,
      turnComplete = True, parts = [], interrupted = False\<rparr>"
    by simp
  show ?thesis
    using turnComplete_flushes_buffers [OF t, of "\<lambda>b. 0" "\<lambda>i. 0"
        "initial_app\<lparr>currentInputTranscription := ''hi'',
           currentOutputTranscription := ''hello''\<rparr>" "\<lambda>i. 0"]
      turnComplete_flushes_buffers [OF t, of "\<lambda>b. 0" "\<lambda>i. 0" initial_app "\<lambda>i. 0"]
    by (simp add: initial_app_def append_transcriptions_def)
qed

section \<open>Starting a session\<close>

text \<open>
  A start made on the session in progress, with nothing else running while it
  waits, tears everything down before it creates anything: the session is
  closed, the track stopped and both contexts closed, and only then are the new
  contexts created and the microphone and the session asked for.
\<close>

lemma startLiveSession_v2_on_established:
  "\<exists>s1 s2 s3 s4 s5 s6.
     startLiveSession_v2_begin example_env example_active
       = StartWaiting (AwaitStop AwaitSessionClose) s1
   \<and> startLiveSession_v2_resume example_env (AwaitStop AwaitSessionClose) s1
       = StartWaiting (AwaitStop AwaitInputClose) s2
   \<and> startLiveSession_v2_resume example_env (AwaitStop AwaitInputClose) s2
       = StartWaiting (AwaitStop AwaitOutputClose) s3
   \<and> startLiveSession_v2_resume example_env (AwaitStop AwaitOutputClose) s3
       = StartWaiting AwaitUserMedia s4
   \<and> startLiveSession_v2_resume example_env AwaitUserMedia s4 = StartWaiting AwaitConnect s5
   \<and> startLiveSession_v2_resume example_env AwaitConnect s5 = StartFinished s6
   \<and> new_effects example_active s6
        = [SessionClose 4, TrackStop 3, CtxClose 1, CtxClose 2,
           CtxCreate 5 16000, CtxCreate 6 24000, GetUserMedia [7], Connect 8]
   \<and> exclusive (effects s6)
   \<and> world_after empty_world (effects s6)
        = \<lparr>live_tracks = [7], live_sessions = [8], open_ctxs = [(5, 16000), (6, 24000)]\<rparr>"
  by (simp add: startLiveSession_v2_begin_def startLiveSession_v2_resume_def after_stop_v2_def
      create_contexts_v2_def stopSession_v2_begin_def stopSession_v2_resume_def
      close_input_v2_def close_output_v2_def finish_stop_v2_def session_close_def
      stop_stream_def ctx_close_def clear_sources_def emit_def addMessage_v2_def
      setMessages_v2_def js_slice_def new_ctx_def example_env_def example_active_def
      initial_app_def Let_def new_effects_def exclusive_def empty_world_def)

text \<open>
  For contrast, \<open>startLiveSession\<close> of the earlier revision has no teardown of
  its own: called on the session in progress it acquires a second microphone and
  a second session beside the first. In that revision a start is reached only
  through the button, which calls \<open>stopSession\<close> instead while \<open>isActive\<close> is set.
\<close>

lemma startLiveSession_v1_example:
  "effects (startLiveSession_v1 example_env example_active) =
     [CtxCreate 1 16000, CtxCreate 2 24000, GetUserMedia [3], Connect 4,
      CtxCreate 5 16000, CtxCreate 6 24000, GetUserMedia [7], Connect 8]"
  by (simp add: startLiveSession_v1_def Let_def example_env_def example_active_def
      initial_app_def new_ctx_def resume_ctx_def)

lemma startLiveSession_v1_no_teardown:
  "\<not> exclusive (effects (startLiveSession_v1 example_env example_active))"
  by (simp add: startLiveSession_v1_example exclusive_def empty_world_def)

text \<open>
  Claim C6. The later revision awaits its teardown before it acquires anything,
  and on an established session that does what the claim says
  (\<open>startLiveSession_v2_on_established\<close>). But the teardown releases only what
  the references hold when it runs, and a start that is still waiting for its
  microphone or its session holds neither in a reference yet, and checks nothing
  when it goes on. Take the freshly mounted component. A first start creates
  contexts 1 and 2 and waits for the microphone. The button, which now reads as
  stop, is pressed: teardown closes the two contexts and finds no stream and no
  session. The button is pressed again: a second start tears down nothing,
  creates contexts 5 and 6 and waits for the microphone. Now both requests for
  the microphone are granted and both connections are made. Tracks 3 and 7 are
  live together and sessions 4 and 8 are live together; the references hold
  stream 7 and session 8 only, so that no later teardown stops track 3 or closes
  session 4.
\<close>

theorem startLiveSession_v2_overlapping_starts:
  "\<exists>s1 s2 s3 s4 s5 s6 s7.
     startLiveSession_v2_begin example_first_env initial_app_v2 = StartWaiting AwaitUserMedia s1
   \<and> stopSession_v2 s1 = Inr s2
   \<and> startLiveSession_v2_begin example_env s2 = StartWaiting AwaitUserMedia s3
   \<and> startLiveSession_v2_resume example_first_env AwaitUserMedia s3 = StartWaiting AwaitConnect s4
   \<and> startLiveSession_v2_resume example_env AwaitUserMedia s4 = StartWaiting AwaitConnect s5
   \<and> live_tracks (world_after empty_world (effects s5)) = [3, 7]
   \<and> startLiveSession_v2_resume example_first_env AwaitConnect s5 = StartFinished s6
   \<and> startLiveSession_v2_resume example_env AwaitConnect s6 = StartFinished s7
   \<and> effects s7
        = [CtxCreate 1 16000, CtxCreate 2 24000, CtxClose 1, CtxClose 2,
           CtxCreate 5 16000, CtxCreate 6 24000, GetUserMedia [3], GetUserMedia [7],
           Connect 4, Connect 8]
   \<and> world_after empty_world (effects s7)
        = \<lparr>live_tracks = [3, 7], live_sessions = [4, 8],
           open_ctxs = [(5, 16000), (6, 24000)]\<rparr>
   \<and> \<not> exclusive (effects s7)
   \<and> streamRef s7 = Some \<lparr>tracks = [7]\<rparr>
   \<and> sessionRef s7 = Some \<lparr>session_id = 8, close_throws = False\<rparr>"
  by (simp add: startLiveSession_v2_begin_def startLiveSession_v2_resume_def after_stop_v2_def
      create_contexts_v2_def stopSession_v2_def stopSession_v2_begin_def
      stopSession_v2_resume_def close_input_v2_def close_output_v2_def finish_stop_v2_def
      session_close_def stop_stream_def ctx_close_def clear_sources_def emit_def
      addMessage_v2_def setMessages_v2_def js_slice_def new_ctx_def example_env_def
      example_first_env_def initial_app_v2_def initial_app_def Let_def exclusive_def
      empty_world_def)

section \<open>Capture\<close>

lemma onaudioprocess_v1_guard:
  "sessionRef st = None \<Longrightarrow> onaudioprocess_v1 encode s d st = st"
  "sessionRef st \<noteq> None \<Longrightarrow>
     new_effects st (onaudioprocess_v1 encode s d st)
       = [SendRealtimeInput (session_id s) (createBlob_v1 encode d)]"
  by (simp_all add: onaudioprocess_v1_def new_effects_def Let_def)

lemma onaudioprocess_v2_always:
  "new_effects st (onaudioprocess_v2 encode s d st)
     = [SendRealtimeInput (session_id s) (createBlob_v2 encode d)]"
  by (simp add: onaudioprocess_v2_def new_effects_def Let_def)

text \<open>
  Claim C7. The earlier revision sends a frame exactly while the session
  reference is set (\<open>onaudioprocess_v1_guard\<close>). The later revision does not do
  what the claim says: its frame handler never reads the reference. Evaluated on
  the session in progress once teardown has closed the session, cleared the
  reference and stopped the tracks, and is waiting for the input context to
  close, a frame that the script processor still delivers is sent to the closed
  session; so is a frame handled after teardown has run to its end. On the same
  input the earlier revision sends nothing.
\<close>

theorem onaudioprocess_v2_sends_after_teardown:
  "sessionRef (stop_stream (close_session_v2
      (example_active\<lparr>isActive := False, isMayaSpeaking := False\<rparr>))) = None
   \<and> new_effects
        (stop_stream (close_session_v2
           (example_active\<lparr>isActive := False, isMayaSpeaking := False\<rparr>)))
        (onaudioprocess_v2 (map (\<lambda>b. char_of (unat b)))
           \<lparr>session_id = 4, close_throws = False\<rparr> [Num 0]
           (stop_stream (close_session_v2
              (example_active\<lparr>isActive := False, isMayaSpeaking := False\<rparr>))))
      = [SendRealtimeInput 4 (createBlob_v2 (map (\<lambda>b. char_of (unat b))) [Num 0])]
   \<and> (\<exists>st'. stopSession_v2 example_active = Inr st' \<and> sessionRef st' = None
      \<and> new_effects st'
           (onaudioprocess_v2 (map (\<lambda>b. char_of (unat b)))
              \<lparr>session_id = 4, close_throws = False\<rparr> [Num 0] st')
         = [SendRealtimeInput 4 (createBlob_v2 (map (\<lambda>b. char_of (unat b))) [Num 0])])
   \<and> sessionRef (stopSession_v1 example_active) = None
   \<and> new_effects (stopSession_v1 example_active)
        (onaudioprocess_v1 (map (\<lambda>b. char_of (unat b)))
           \<lparr>session_id = 4, close_throws = False\<rparr> [Num 0] (stopSession_v1 example_active))
      = []"
proof -
  have "sessionRef initial_app = None" by (simp add: initial_app_def)
  then show ?thesis
    by (simp add: stopSession_v2_example stopSession_v1_example onaudioprocess_v2_always
        onaudioprocess_v1_guard)
qed

section \<open>Text prompts\<close>

lemma handleDeepPrompt_v2_busy: "isThinking st \<Longrightarrow> handleDeepPrompt_v2 trim t st = st"
  by (simp add: handleDeepPrompt_v2_def)

lemma handleDeepPrompt_v2_accepts:
  assumes "\<not> isThinking st" "trim t \<noteq> []" "mode st \<noteq> LIVE"
  shows "isThinking (handleDeepPrompt_v2 trim t st)"
    and "messages (handleDeepPrompt_v2 trim t st)
          = js_slice (- 50) (messages st @ [\<lparr>msg_role = User, msg_text = t, imageUrl = None\<rparr>])"
    and "new_effects st (handleDeepPrompt_v2 trim t st)
          = [GenerateContent
               (case mode st of DEEP_THOUGHT \<Rightarrow> MODELS_THINKING | SEARCH \<Rightarrow> MODELS_SEARCH
                | IMAGE \<Rightarrow> MODELS_IMAGE | LIVE \<Rightarrow> MODELS_LIVE)
               (if mode st = IMAGE then ''A visual interpretation of: '' @ t else t)]"
  using assms
  by (cases "mode st"; simp add: handleDeepPrompt_v2_def Let_def new_effects_def
      addMessage_v2_def setMessages_v2_def)+

lemma addMessage_v2_fields [simp]:
  "effects (addMessage_v2 r t img st) = effects st"
  "isThinking (addMessage_v2 r t img st) = isThinking st"
  "mode (addMessage_v2 r t img st) = mode st"
  by (simp_all add: addMessage_v2_def setMessages_v2_def Let_def)

lemma handleApiError_isThinking [simp]: "isThinking (handleApiError msg st) = isThinking st"
  by (simp add: handleApiError_def)

lemma deepPrompt_v2_clears:
  "\<not> isThinking (deepPrompt_resolved_v2 m response st)"
  "\<not> isThinking (deepPrompt_rejected_v2 msg st)"
  by (simp_all add: deepPrompt_resolved_v2_def deepPrompt_rejected_v2_def Let_def)

lemma deepPrompt_v1_flag:
  "trim t \<noteq> [] \<Longrightarrow> isThinking (handleDeepPrompt_v1 trim t st)"
  "\<not> isThinking (deepPrompt_resolved_v1 response st)"
  "\<not> isThinking (deepPrompt_rejected_v1 st)"
  by (simp_all add: handleDeepPrompt_v1_def deepPrompt_resolved_v1_def deepPrompt_rejected_v1_def
      Let_def addMessage_v1_def)

text \<open>
  The handler of the earlier revision does not read the flag; the text input
  that calls it is disabled while the flag is set, and nothing else in that
  revision sets or clears the flag.
\<close>

lemma handleDeepPrompt_v1_no_gate:
  "isThinking st \<Longrightarrow> trim t \<noteq> [] \<Longrightarrow>
     new_effects st (handleDeepPrompt_v1 trim t st)
       = [GenerateContent (if mode st = DEEP_THOUGHT then MODELS_THINKING else MODELS_SEARCH) t]"
  by (simp add: handleDeepPrompt_v1_def Let_def new_effects_def addMessage_v1_def)

lemma onEnter_busy:
  "isThinking st \<Longrightarrow> onEnter_v1 trim t st = st"
  "isThinking st \<Longrightarrow> onEnter_v2 trim t st = st"
  by (simp_all add: onEnter_v1_def onEnter_v2_def)

lemma condenseHistory_fields:
  assumes "4 \<le> length (messages st)"
  shows "effects (condenseHistory st)
          = effects st @ [GenerateContent MODELS_THINKING (condense_contents (messages st))]"
    and "isThinking (condenseHistory st)"
    and "messages (condenseHistory st) = messages st"
    and "mode (condenseHistory st) = mode st"
  using assms by (simp_all add: condenseHistory_def)

lemma condenseHistory_settled_fields:
  "\<not> isThinking (condenseHistory_resolved response st)"
  "\<not> isThinking (condenseHistory_rejected msg st)"
  "effects (condenseHistory_resolved response st) = effects st"
  "mode (condenseHistory_resolved response st) = mode st"
  by (simp_all add: condenseHistory_resolved_def condenseHistory_rejected_def addMessage_v2_def
      setMessages_v2_def Let_def)

text \<open>
  Claim C8. The later revision rejects a submission made while the busy flag is
  set (\<open>handleDeepPrompt_v2_busy\<close>), sets the flag when it accepts one and clears
  it when the request settles (\<open>handleDeepPrompt_v2_accepts\<close>,
  \<open>deepPrompt_v2_clears\<close>). But the flag does not stay set for as long as the
  request is outstanding: \<open>condenseHistory\<close> shares the flag, does not read it,
  and clears it when its own request settles. Take a state that is not busy, in
  the search mode, with at least three Messages, and two texts that are not
  blank. The first is submitted and accepted: the flag is set and a request is
  issued. While that request is outstanding the history is condensed: a second
  request is issued, and when it resolves the flag is cleared. The second text
  is submitted now, through the text input, which is enabled again: it is
  accepted, its Message is appended and a third request is issued, while the
  request of the first submission has neither resolved nor failed.
\<close>

theorem condenseHistory_reopens_busy_gate:
  assumes "trim t \<noteq> []" and "trim t' \<noteq> []" and "\<not> isThinking st" and "mode st = SEARCH"
    and "3 \<le> length (messages st)"
  shows "isThinking (handleDeepPrompt_v2 trim t st)
   \<and> new_effects st (handleDeepPrompt_v2 trim t st) = [GenerateContent MODELS_SEARCH t]
   \<and> isThinking (condenseHistory (handleDeepPrompt_v2 trim t st))
   \<and> new_effects st (condenseHistory (handleDeepPrompt_v2 trim t st))
       = [GenerateContent MODELS_SEARCH t,
          GenerateContent MODELS_THINKING
            (condense_contents (messages (handleDeepPrompt_v2 trim t st)))]
   \<and> \<not> isThinking
        (condenseHistory_resolved response (condenseHistory (handleDeepPrompt_v2 trim t st)))
   \<and> new_effects st
        (handleDeepPrompt_v2 trim t'
           (condenseHistory_resolved response (condenseHistory (handleDeepPrompt_v2 trim t st))))
       = [GenerateContent MODELS_SEARCH t,
          GenerateContent MODELS_THINKING
            (condense_contents (messages (handleDeepPrompt_v2 trim t st))),
          GenerateContent MODELS_SEARCH t']
   \<and> last (messages
        (handleDeepPrompt_v2 trim t'
           (condenseHistory_resolved response (condenseHistory (handleDeepPrompt_v2 trim t st)))))
       = \<lparr>msg_role = User, msg_text = t', imageUrl = None\<rparr>
   \<and> onEnter_v2 trim t'
         (condenseHistory_resolved response (condenseHistory (handleDeepPrompt_v2 trim t st)))
       = handleDeepPrompt_v2 trim t'
           (condenseHistory_resolved response (condenseHistory (handleDeepPrompt_v2 trim t st)))"
proof -
  let ?st1 = "handleDeepPrompt_v2 trim t st"
  let ?st2 = "condenseHistory ?st1"
  let ?st3 = "condenseHistory_resolved response ?st2"
  let ?st4 = "handleDeepPrompt_v2 trim t' ?st3"
  have m: "mode st \<noteq> LIVE" using assms(4) by simp
  note a = handleDeepPrompt_v2_accepts [where st = st and trim = trim and t = t,
      OF assms(3) assms(1) m]
  have e1: "effects ?st1 = effects st @ [GenerateContent MODELS_SEARCH t]"
    using assms by (simp add: handleDeepPrompt_v2_def Let_def)
  have "length (messages ?st1) = min 50 (Suc (length (messages st)))"
    by (simp add: a(2) js_slice_50)
  with assms(5) have len: "4 \<le> length (messages ?st1)" by simp
  note c = condenseHistory_fields [OF len]
  have mode1: "mode ?st1 = SEARCH"
    using assms by (simp add: handleDeepPrompt_v2_def Let_def addMessage_v2_def setMessages_v2_def)
  have e3: "effects ?st3 = effects st @ [GenerateContent MODELS_SEARCH t,
      GenerateContent MODELS_THINKING (condense_contents (messages ?st1))]"
    by (simp add: condenseHistory_settled_fields c(1) e1)
  have b3: "\<not> isThinking ?st3" by (rule condenseHistory_settled_fields)
  have m3: "mode ?st3 = SEARCH" by (simp add: condenseHistory_settled_fields c(4) mode1)
  then have m3': "mode ?st3 \<noteq> LIVE" by simp
  note d = handleDeepPrompt_v2_accepts [where st = ?st3 and trim = trim and t = t',
      OF b3 assms(2) m3']
  have e4: "effects ?st4 = effects ?st3 @ [GenerateContent MODELS_SEARCH t']"
    using b3 m3 assms(2) by (simp add: handleDeepPrompt_v2_def Let_def)
  have l4: "last (messages ?st4) = \<lparr>msg_role = User, msg_text = t', imageUrl = None\<rparr>"
    by (simp add: d(2) js_slice_50)
  have k4: "onEnter_v2 trim t' ?st3 = ?st4"
    using b3 m3 by (simp add: onEnter_v2_def)
  show ?thesis
    using a(1) c(2) b3 l4 k4
    by (simp add: new_effects_def e1 c(1) e3 e4)
qed

theorem condenseHistory_reopens_busy_gate_witness:
  "trim_ascii ''hi'' \<noteq> [] \<and> trim_ascii ''again'' \<noteq> []
   \<and> \<not> isThinking
        (initial_app_v2
           \<lparr>mode := SEARCH,
            messages := [\<lparr>msg_role = User, msg_text = ''a'', imageUrl = None\<rparr>,
                         \<lparr>msg_role = Maya, msg_text = ''b'', imageUrl = None\<rparr>,
                         \<lparr>msg_role = User, msg_text = ''c'', imageUrl = None\<rparr>]\<rparr>)
   \<and> new_effects
        (initial_app_v2
           \<lparr>mode := SEARCH,
            messages := [\<lparr>msg_role = User, msg_text = ''a'', imageUrl = None\<rparr>,
                         \<lparr>msg_role = Maya, msg_text = ''b'', imageUrl = None\<rparr>,
                         \<lparr>msg_role = User, msg_text = ''c'', imageUrl = None\<rparr>]\<rparr>)
        (handleDeepPrompt_v2 trim_ascii ''again''
           (condenseHistory_resolved \<lparr>response_text = ''s'', candidate_parts = None\<rparr>
              (condenseHistory
                 (handleDeepPrompt_v2 trim_ascii ''hi''
                    (initial_app_v2
                       \<lparr>mode := SEARCH,
                        messages := [\<lparr>msg_role = User, msg_text = ''a'', imageUrl = None\<rparr>,
                                     \<lparr>msg_role = Maya, msg_text = ''b'', imageUrl = None\<rparr>,
                                     \<lparr>msg_role = User, msg_text = ''c'', imageUrl = None\<rparr>]\<rparr>)))))
       = [GenerateContent MODELS_SEARCH ''hi'',
          GenerateContent MODELS_THINKING
            (condense_contents
               [\<lparr>msg_role = User, msg_text = ''a'', imageUrl = None\<rparr>,
                \<lparr>msg_role = Maya, msg_text = ''b'', imageUrl = None\<rparr>,
                \<lparr>msg_role = User, msg_text = ''c'', imageUrl = None\<rparr>,
                \<lparr>msg_role = User, msg_text = ''hi'', imageUrl = None\<rparr>]),
          GenerateContent MODELS_SEARCH ''again'']"
proof -
  let ?st = "initial_app_v2
           \<lparr>mode := SEARCH,
            messages := [\<lparr>msg_role = User, msg_text = ''a'', imageUrl = None\<rparr>,
                         \<lparr>msg_role = Maya, msg_text = ''b'', imageUrl = None\<rparr>,
                         \<lparr>msg_role = User, msg_text = ''c'', imageUrl = None\<rparr>]\<rparr>"
  have 1: "trim_ascii ''hi'' \<noteq> []" by (simp add: trim_ascii_def ascii_space_def)
  have 2: "trim_ascii ''again'' \<noteq> []" by (simp add: trim_ascii_def ascii_space_def)
  have 3: "\<not> isThinking ?st" by (simp add: initial_app_v2_def initial_app_def)
  have 4: "mode ?st = SEARCH" by simp
  have 5: "3 \<le> length (messages ?st)" by simp
  have 6: "messages (handleDeepPrompt_v2 trim_ascii ''hi'' ?st)
      = [\<lparr>msg_role = User, msg_text = ''a'', imageUrl = None\<rparr>,
         \<lparr>msg_role = Maya, msg_text = ''b'', imageUrl = None\<rparr>,
         \<lparr>msg_role = User, msg_text = ''c'', imageUrl = None\<rparr>,
         \<lparr>msg_role = User, msg_text = ''hi'', imageUrl = None\<rparr>]"
    using 1 3 by (simp add: handleDeepPrompt_v2_def Let_def addMessage_v2_def setMessages_v2_def
        js_slice_def)
  show ?thesis
    using condenseHistory_reopens_busy_gate [where trim = trim_ascii and t = "''hi''"
        and t' = "''again''" and st = ?st
        and response = "\<lparr>response_text = ''s'', candidate_parts = None\<rparr>", OF 1 2 3 4 5] 1 2 3
    by (simp add: 6)
qed

end
